theory Spec2Isabelle
  imports Main "HOL-Library.Word" "HOL-Library.AList"
begin

section \<open>JavaScript values\<close>

text \<open>
  The backend is one ECMAScript module, \<^verbatim>\<open>backend/server.js\<close>. A JavaScript string is a
  sequence of UTF-16 code units; \<open>str\<close> embeds an ASCII literal, and the accented letters
  of the Portuguese literals are written as their code units.
\<close>

type_synonym jsstring = "16 word list"

definition str :: "string \<Rightarrow> jsstring" where
  "str s = map of_char s"

text \<open>
  Values that \<^verbatim>\<open>JSON.parse\<close> produces. \<open>JNum\<close> carries the integers that a double
  represents exactly and prints in plain decimal, those of magnitude up to \<open>2 ^ 53\<close>;
  fractions and floating-point rounding are outside the model. \<open>JObj\<close> lists the own
  properties of a plain object.
\<close>

datatype json =
    JNull
  | JBool bool
  | JNum int
  | JStr jsstring
  | JArr "json list"
  | JObj "(jsstring \<times> json) list"

text \<open>What a request field, a property read or a variable holds: \<^verbatim>\<open>undefined\<close> or a value.\<close>

datatype jsval = Undefined | Val json

datatype js_error = TypeError | FileError | UpstreamError jsstring

fun truthy_json :: "json \<Rightarrow> bool" where
  "truthy_json JNull = False"
| "truthy_json (JBool b) = b"
| "truthy_json (JNum n) = (n \<noteq> 0)"
| "truthy_json (JStr s) = (s \<noteq> [])"
| "truthy_json (JArr xs) = True"
| "truthy_json (JObj m) = True"

fun truthy :: "jsval \<Rightarrow> bool" where
  "truthy Undefined = False"
| "truthy (Val v) = truthy_json v"

text \<open>\<^verbatim>\<open>a || b\<close>\<close>

definition js_or :: "jsval \<Rightarrow> jsval \<Rightarrow> jsval" where
  "js_or a b = (if truthy a then a else b)"

text \<open>
  \<^verbatim>\<open>a === b\<close>. Arrays and objects are compared by reference, and the two sides of every
  comparison in the program come from different parses, so they are never equal.
\<close>

fun same_primitive :: "json \<Rightarrow> json \<Rightarrow> bool" where
  "same_primitive JNull b = (b = JNull)"
| "same_primitive (JBool x) b = (b = JBool x)"
| "same_primitive (JNum n) b = (b = JNum n)"
| "same_primitive (JStr s) b = (b = JStr s)"
| "same_primitive (JArr xs) b = False"
| "same_primitive (JObj m) b = False"

fun strict_eq :: "jsval \<Rightarrow> jsval \<Rightarrow> bool" where
  "strict_eq Undefined b = (b = Undefined)"
| "strict_eq (Val a) b = (case b of Undefined \<Rightarrow> False | Val c \<Rightarrow> same_primitive a c)"

text \<open>\<^verbatim>\<open>String.prototype.trim\<close>: white space and line terminators of ECMAScript.\<close>

definition is_space :: "16 word \<Rightarrow> bool" where
  "is_space c \<longleftrightarrow>
     c \<in> {0x9, 0xA, 0xB, 0xC, 0xD, 0x20, 0xA0, 0x1680, 0x2028, 0x2029, 0x202F, 0x205F,
          0x3000, 0xFEFF}
     \<or> (0x2000 \<le> c \<and> c \<le> 0x200A)"

definition trim :: "jsstring \<Rightarrow> jsstring" where
  "trim s = rev (dropWhile is_space (rev (dropWhile is_space s)))"

subsection \<open>Property access\<close>

text \<open>
  The property names the program reads with a fixed name. None of them is defined on a
  built-in prototype, so reading one from a string, number, boolean or array gives
  \<^verbatim>\<open>undefined\<close>, and reading one from \<^verbatim>\<open>null\<close> or \<^verbatim>\<open>undefined\<close> throws.
\<close>

datatype field =
    Field_id | Field_secret | Field_openaiApiKey | Field_choices | Field_message | Field_content

fun field_name :: "field \<Rightarrow> jsstring" where
  "field_name Field_id = str ''id''"
| "field_name Field_secret = str ''secret''"
| "field_name Field_openaiApiKey = str ''openaiApiKey''"
| "field_name Field_choices = str ''choices''"
| "field_name Field_message = str ''message''"
| "field_name Field_content = str ''content''"

definition own :: "(jsstring \<times> json) list \<Rightarrow> jsstring \<Rightarrow> jsval" where
  "own m k = (case map_of m k of None \<Rightarrow> Undefined | Some v \<Rightarrow> Val v)"

fun get_field :: "jsval \<Rightarrow> field \<Rightarrow> js_error + jsval" where
  "get_field Undefined f = Inl TypeError"
| "get_field (Val JNull) f = Inl TypeError"
| "get_field (Val (JObj m)) f = Inr (own m (field_name f))"
| "get_field v f = Inr Undefined"

text \<open>
  \<^verbatim>\<open>obj[key]\<close> and \<^verbatim>\<open>obj[key] = value\<close> on a plain object with a computed key. A name
  that is not an own property is looked up on \<^verbatim>\<open>Object.prototype\<close>, whose members are
  functions, and the prototype object itself under \<^verbatim>\<open>__proto__\<close>. Assigning to an
  inherited data property creates an own property; \<^verbatim>\<open>__proto__\<close> is an accessor, whose
  setter ignores a value that is neither an object nor \<^verbatim>\<open>null\<close>.
\<close>

datatype member = Own json | Proto jsstring | Absent

definition object_prototype_keys :: "jsstring list" where
  "object_prototype_keys =
     [str ''constructor'', str ''__defineGetter__'', str ''__defineSetter__'',
      str ''hasOwnProperty'', str ''__lookupGetter__'', str ''__lookupSetter__'',
      str ''isPrototypeOf'', str ''propertyIsEnumerable'', str ''toString'',
      str ''valueOf'', str ''__proto__'', str ''toLocaleString'']"

definition obj_get :: "(jsstring \<times> json) list \<Rightarrow> jsstring \<Rightarrow> member" where
  "obj_get m k =
     (case map_of m k of
        Some v \<Rightarrow> Own v
      | None \<Rightarrow> if k \<in> set object_prototype_keys then Proto k else Absent)"

definition obj_set_string ::
  "(jsstring \<times> json) list \<Rightarrow> jsstring \<Rightarrow> jsstring \<Rightarrow> (jsstring \<times> json) list" where
  "obj_set_string m k v =
     (if map_of m k = None \<and> k = str ''__proto__'' then m else AList.update k (JStr v) m)"

subsection \<open>Conversion to string\<close>

fun dec_nat :: "nat \<Rightarrow> jsstring" where
  "dec_nat n = (if n < 10 then [of_nat (48 + n)] else dec_nat (n div 10) @ [of_nat (48 + n mod 10)])"

declare dec_nat.simps [simp del]

definition dec :: "int \<Rightarrow> jsstring" where
  "dec n = (if n < 0 then 0x2D # dec_nat (nat (- n)) else dec_nat (nat n))"

text \<open>
  \<^verbatim>\<open>ToString\<close>, as a template literal and a computed property key apply it. A plain
  object prints as \<^verbatim>\<open>[object Object]\<close> unless it has an own (so not callable)
  \<^verbatim>\<open>toString\<close>, where the conversion throws; an array joins its elements with commas,
  \<^verbatim>\<open>null\<close> elements printing as the empty string.
\<close>

fun to_string :: "json \<Rightarrow> js_error + jsstring"
  and join :: "json list \<Rightarrow> js_error + jsstring" where
  "to_string JNull = Inr (str ''null'')"
| "to_string (JBool b) = Inr (if b then str ''true'' else str ''false'')"
| "to_string (JNum n) = Inr (dec n)"
| "to_string (JStr s) = Inr s"
| "to_string (JArr xs) = join xs"
| "to_string (JObj m) =
     (if map_of m (str ''toString'') = None then Inr (str ''[object Object]'') else Inl TypeError)"
| "join [] = Inr []"
| "join (x # xs) =
     (case (if x = JNull then Inr [] else to_string x) of
        Inl e \<Rightarrow> Inl e
      | Inr a \<Rightarrow>
          if xs = [] then Inr a
          else (case join xs of Inl e \<Rightarrow> Inl e | Inr b \<Rightarrow> Inr (a @ str '','' @ b)))"

fun to_string_val :: "jsval \<Rightarrow> js_error + jsstring" where
  "to_string_val Undefined = Inr (str ''undefined'')"
| "to_string_val (Val v) = to_string v"

text \<open>
  \<^verbatim>\<open>v.length > 0\<close>. The length of an array or a string is its number of elements or code
  units; an object has the length it owns, if any. Whether a string converts to a number
  greater than zero is decided by the runtime's floating-point parser, which is a
  parameter here.
\<close>

fun js_length :: "jsval \<Rightarrow> jsval" where
  "js_length (Val (JArr xs)) = Val (JNum (int (length xs)))"
| "js_length (Val (JStr s)) = Val (JNum (int (length s)))"
| "js_length (Val (JObj m)) = own m (str ''length'')"
| "js_length v = Undefined"

fun gt_zero :: "(jsstring \<Rightarrow> bool) \<Rightarrow> jsval \<Rightarrow> js_error + bool" where
  "gt_zero pos (Val (JBool b)) = Inr b"
| "gt_zero pos (Val (JNum n)) = Inr (0 < n)"
| "gt_zero pos (Val (JStr s)) = Inr (pos s)"
| "gt_zero pos (Val (JArr xs)) = (case join xs of Inl e \<Rightarrow> Inl e | Inr s \<Rightarrow> Inr (pos s))"
| "gt_zero pos (Val (JObj m)) =
     (if map_of m (str ''toString'') = None then Inr False else Inl TypeError)"
| "gt_zero pos v = Inr False"

text \<open>\<^verbatim>\<open>v[0]\<close>\<close>

fun first_element :: "jsval \<Rightarrow> jsval" where
  "first_element (Val (JArr (x # xs))) = Val x"
| "first_element (Val (JStr (c # cs))) = Val (JStr [c])"
| "first_element (Val (JObj m)) = own m (str ''0'')"
| "first_element v = Undefined"

section \<open>Literals of the program\<close>

definition prompt_head :: jsstring where
  "prompt_head =
     [0xA] @ str ''Voc'' @ [0xEA] @ str '' '' @ [0xE9] @ str '' um assistente jur''
     @ [0xED] @ str ''dico brasileiro.'' @ [0xA] @ str ''Tarefa: ''"

definition prompt_middle :: jsstring where
  "prompt_middle =
     [0xA] @ str ''Texto de refer'' @ [0xEA] @ str ''ncia (se houver):'' @ [0xA]"

definition prompt_tail :: jsstring where
  "prompt_tail =
     [0xA]
     @ str ''Responda apenas com o texto final, limpo, sem marcadores, sem asteriscos, sem emojis e pronto para ser utilizado em um documento Word (.docx).''
     @ [0xA]"

definition placeholder :: jsstring where
  "placeholder =
     str ''(nenhum texto selecionado)''"

definition default_persona :: jsstring where
  "default_persona =
     str ''Voc'' @ [0xEA] @ str '' '' @ [0xE9] @ str '' um assistente jur'' @ [0xED]
     @ str ''dico brasileiro especializado em Direito Civil, Trabalhista e Previdenci''
     @ [0xE1] @ str ''rio. Use linguagem t'' @ [0xE9]
     @ str ''cnica, clara e objetiva, conforme pr'' @ [0xE1]
     @ str ''tica forense brasileira.''"

definition answer_fallback :: jsstring where
  "answer_fallback =
     str ''N'' @ [0xE3] @ str ''o foi poss'' @ [0xED] @ str ''vel gerar resposta.''"

definition optimizer_persona :: jsstring where
  "optimizer_persona =
     str ''Voc'' @ [0xEA] @ str '' '' @ [0xE9]
     @ str '' um especialista em Prompt Engineering para LLMs. Sua tarefa '' @ [0xE9]
     @ str '' transformar uma descri'' @ [0xE7, 0xE3]
     @ str ''o curta de um papel profissional em um '' @ [0x27] @ str ''System Prompt''
     @ [0x27] @ str '' detalhado, robusto e otimizado para gerar documentos jur'' @ [0xED]
     @ str ''dicos de alta qualidade. O prompt otimizado deve instruir a IA a agir como esse profissional, usando terminologia correta e estilo formal. Responda APENAS com o prompt otimizado, sem explica''
     @ [0xE7, 0xF5] @ str ''es adicionais.''"

definition optimize_lead :: jsstring where
  "optimize_lead =
     str ''Crie um System Prompt otimizado para esta descri'' @ [0xE7, 0xE3] @ str ''o: ''
     @ [0x22]"

definition optimized_fallback :: jsstring where
  "optimized_fallback =
     str ''Voc'' @ [0xEA] @ str '' '' @ [0xE9] @ str '' um assistente jur'' @ [0xED]
     @ str ''dico.''"

definition EXPERT_PROMPT :: jsstring where
  "EXPERT_PROMPT =
     [0xA] @ str ''Voc'' @ [0xEA] @ str '' '' @ [0xE9]
     @ str '' uma Autoridade Suprema em Direito Brasileiro e Lingu'' @ [0xED]
     @ str ''stica, atuando como o mais experiente Consultor Jur'' @ [0xED]
     @ str ''dico e Revisor de Textos.'' @ [0xA] @ str ''Voc'' @ [0xEA] @ str '' det''
     @ [0xE9] @ str ''m conhecimento enciclop'' @ [0xE9] @ str ''dico de todas as ''
     @ [0xE1] @ str ''reas do Direito (Civil, Penal, Trabalhista, Tribut'' @ [0xE1]
     @ str ''rio, Constitucional, etc.) e dom'' @ [0xED]
     @ str ''nio absoluto da Norma Culta da L'' @ [0xED] @ str ''ngua Portuguesa.''
     @ [0xA, 0xA] @ str ''Sua miss'' @ [0xE3] @ str ''o '' @ [0xE9]
     @ str '' realizar uma AN'' @ [0xC1] @ str ''LISE FORENSE E LINGU'' @ [0xCD]
     @ str ''STICA DO DOCUMENTO fornecido.'' @ [0xA, 0xA] @ str ''Diretrizes de An''
     @ [0xE1] @ str ''lise:'' @ [0xA] @ str ''1.  **Rigidez Jur'' @ [0xED]
     @ str ''dica**: Verifique a solidez dos argumentos, a correta aplica'' @ [0xE7, 0xE3]
     @ str ''o dos institutos jur'' @ [0xED] @ str ''dicos e a vig'' @ [0xEA]
     @ str ''ncia das leis citadas. Aponte fragilidades, riscos de nulidade ou teses ultrapassadas.''
     @ [0xA] @ str ''2.  **Excel'' @ [0xEA] @ str ''ncia Lingu'' @ [0xED]
     @ str ''stica**: Identifique erros gramaticais, de sintaxe, pontua'' @ [0xE7, 0xE3]
     @ str ''o e reg'' @ [0xEA] @ str ''ncia. Avalie a clareza, a coes'' @ [0xE3]
     @ str ''o e a eleg'' @ [0xE2]
     @ str ''ncia do texto. O estilo deve ser culto, formal e persuasivo, sem ser pedante.''
     @ [0xA] @ str ''3.  **Estrat'' @ [0xE9]
     @ str ''gia Processual**: Analise se o texto atinge seu objetivo (convencer o juiz, notificar a parte, etc.) com efic''
     @ [0xE1] @ str ''cia.'' @ [0xA, 0xA] @ str ''Formato da Resposta:'' @ [0xA]
     @ str ''Forne'' @ [0xE7] @ str ''a um RELAT'' @ [0xD3] @ str ''RIO T'' @ [0xC9]
     @ str ''CNICO estruturado:'' @ [0xA] @ str ''-   **Resumo da An'' @ [0xE1]
     @ str ''lise**: Uma vis'' @ [0xE3] @ str ''o geral da qualidade do documento.''
     @ [0xA] @ str ''-   **Pontos Cr'' @ [0xED] @ str ''ticos (Jur'' @ [0xED]
     @ str ''dico)**: Erros graves ou sugest'' @ [0xF5] @ str ''es de fundamenta''
     @ [0xE7, 0xE3] @ str ''o.'' @ [0xA] @ str ''-   **Corre'' @ [0xE7, 0xF5]
     @ str ''es Lingu'' @ [0xED]
     @ str ''sticas**: Lista de erros gramaticais ou de estilo encontrados.'' @ [0xA]
     @ str ''-   **Sugest'' @ [0xF5] @ str ''es de Melhoria**: Recomenda'' @ [0xE7, 0xF5]
     @ str ''es para elevar o n'' @ [0xED] @ str ''vel do documento.'' @ [0xA, 0xA]
     @ str ''Se o documento estiver perfeito, reconhe'' @ [0xE7] @ str ''a a excel''
     @ [0xEA] @ str ''ncia. Se estiver ruim, seja implac'' @ [0xE1]
     @ str ''vel mas construtivo.'' @ [0xA]"

definition analysis_lead :: jsstring where
  "analysis_lead =
     str ''Aqui est'' @ [0xE1] @ str '' o texto do documento para an'' @ [0xE1]
     @ str ''lise:'' @ [0xA, 0xA]"

definition analysis_fallback :: jsstring where
  "analysis_fallback =
     str ''N'' @ [0xE3] @ str ''o foi poss'' @ [0xED] @ str ''vel gerar a an'' @ [0xE1]
     @ str ''lise.''"

definition key_saved_message :: jsstring where
  "key_saved_message =
     str ''API Key salva com sucesso.''"

definition model_name :: jsstring where
  "model_name = str ''gpt-4o-mini''"

definition replace_mode :: jsstring where
  "replace_mode = str ''replace''"

definition msg_missing_credentials :: jsstring where
  "msg_missing_credentials = str ''Missing clientId or clientSecret''"

definition msg_invalid_credentials :: jsstring where
  "msg_invalid_credentials = str ''Invalid client credentials''"

definition msg_missing_prompt :: jsstring where
  "msg_missing_prompt = str ''Missing prompt''"

definition msg_missing_rawPrompt :: jsstring where
  "msg_missing_rawPrompt = str ''Missing rawPrompt''"

definition msg_missing_documentText :: jsstring where
  "msg_missing_documentText = str ''Missing documentText''"

definition msg_missing_apiKey :: jsstring where
  "msg_missing_apiKey = str ''Missing apiKey''"

definition msg_no_key_for_client :: jsstring where
  "msg_no_key_for_client = str ''No OpenAI API key configured for this client''"

definition msg_no_key :: jsstring where
  "msg_no_key = str ''No OpenAI API key configured''"

definition msg_not_in_file :: jsstring where
  "msg_not_in_file = str ''Client found in cache but not in file.''"

section \<open>Process state, files and the outside world\<close>

text \<open>
  A file is represented by what reading and parsing it gives: it is missing, it cannot be
  read or parsed, or it holds a value. \<^verbatim>\<open>writeFileSync(path, JSON.stringify(v, null, 2))\<close>
  leaves the file holding \<open>v\<close>; a write is taken to succeed. The override file, when it
  parses, holds a plain object, which is what \<^verbatim>\<open>saveAssistant\<close> writes.
\<close>

datatype 'a disk_file = Missing | Corrupt | Holds 'a

record state =
  clients :: "json list"
  assistants :: "(jsstring \<times> json) list"
  clients_file :: "json disk_file"
  assistants_file :: "(jsstring \<times> json) list disk_file"

text \<open>The fields that the handlers destructure from \<^verbatim>\<open>req.body\<close>, a parsed JSON object.\<close>

record request =
  clientId :: jsval
  clientSecret :: jsval
  prompt :: jsval
  selectedText :: jsval
  mode :: jsval
  rawPrompt :: jsval
  documentText :: jsval
  apiKey :: jsval

text \<open>One call of \<^verbatim>\<open>openai.chat.completions.create\<close> on a client built with \<open>call_key\<close>.\<close>

record completion_call =
  call_key :: jsval
  call_model :: jsstring
  call_system :: member
  call_user :: jsstring
  call_temperature_tenths :: nat

text \<open>
  What the program does not determine: the environment variable \<^verbatim>\<open>OPENAI_API_KEY\<close>, the
  answer of the completion service to a call (a value, or a thrown error), and the
  runtime's string-to-number comparison.
\<close>

record world =
  OPENAI_API_KEY :: jsval
  complete :: "completion_call \<Rightarrow> js_error + jsval"
  string_positive :: "jsstring \<Rightarrow> bool"

text \<open>
  A response: the status and the body. \<open>Caught e d\<close> is the body
  \<^verbatim>\<open>{ error: err.message || d }\<close> that the \<^verbatim>\<open>catch\<close> block of a handler sends.
\<close>

datatype payload =
    Error jsstring
  | Caught js_error "jsstring option"
  | Generated jsstring jsval
  | Configured jsstring
  | Analysis jsstring
  | Saved jsstring

record response =
  status :: nat
  payload :: payload

definition reply :: "nat \<Rightarrow> payload \<Rightarrow> response" where
  "reply n b = \<lparr>status = n, payload = b\<rparr>"

section \<open>Stores\<close>

text \<open>The tenant list is read once, at startup.\<close>

definition load_clients :: "json disk_file \<Rightarrow> json list" where
  "load_clients f = (case f of Holds (JArr xs) \<Rightarrow> xs | _ \<Rightarrow> [])"

definition loadAssistants :: "state \<Rightarrow> state" where
  "loadAssistants s =
     (case assistants_file s of
        Missing \<Rightarrow> s
      | Corrupt \<Rightarrow> s\<lparr>assistants := []\<rparr>
      | Holds m \<Rightarrow> s\<lparr>assistants := m\<rparr>)"

definition startup :: "json disk_file \<Rightarrow> (jsstring \<times> json) list disk_file \<Rightarrow> state" where
  "startup cf af =
     loadAssistants
       \<lparr>clients = load_clients cf, assistants = [], clients_file = cf, assistants_file = af\<rparr>"

text \<open>A new process, started on the files that a state leaves behind.\<close>

definition restart :: "state \<Rightarrow> state" where
  "restart s = startup (clients_file s) (assistants_file s)"

text \<open>The state is returned also when the key conversion throws, after the reload.\<close>

definition saveAssistant :: "state \<Rightarrow> jsval \<Rightarrow> jsstring \<Rightarrow> (js_error + unit) \<times> state" where
  "saveAssistant s cid optimizedPrompt =
     (let s1 = loadAssistants s in
      case to_string_val cid of
        Inl e \<Rightarrow> (Inl e, s1)
      | Inr k \<Rightarrow>
          (let a = obj_set_string (assistants s1) k optimizedPrompt
           in (Inr (), s1\<lparr>assistants := a, assistants_file := Holds a\<rparr>)))"

fun find_client :: "json list \<Rightarrow> jsval \<Rightarrow> jsval \<Rightarrow> js_error + jsval" where
  "find_client [] cid sec = Inr Undefined"
| "find_client (c # cs) cid sec =
     (case get_field (Val c) Field_id of
        Inl e \<Rightarrow> Inl e
      | Inr i \<Rightarrow>
          if \<not> strict_eq i cid then find_client cs cid sec
          else (case get_field (Val c) Field_secret of
                  Inl e \<Rightarrow> Inl e
                | Inr k \<Rightarrow>
                    if truthy k \<and> strict_eq k sec then Inr (Val c)
                    else find_client cs cid sec))"

definition getClientRecord :: "json list \<Rightarrow> jsval \<Rightarrow> jsval \<Rightarrow> js_error + jsval" where
  "getClientRecord cs cid sec =
     (if \<not> truthy cid \<or> \<not> truthy sec then Inr Undefined else find_client cs cid sec)"

text \<open>\<^verbatim>\<open>allClients.findIndex(c => c.id === clientId && c.secret === clientSecret)\<close>\<close>

definition next_index :: "js_error + nat option \<Rightarrow> js_error + nat option" where
  "next_index r = (case r of Inl e \<Rightarrow> Inl e | Inr None \<Rightarrow> Inr None | Inr (Some n) \<Rightarrow> Inr (Some (Suc n)))"

fun findIndex :: "json list \<Rightarrow> jsval \<Rightarrow> jsval \<Rightarrow> js_error + nat option" where
  "findIndex [] cid sec = Inr None"
| "findIndex (c # cs) cid sec =
     (case get_field (Val c) Field_id of
        Inl e \<Rightarrow> Inl e
      | Inr i \<Rightarrow>
          if \<not> strict_eq i cid then next_index (findIndex cs cid sec)
          else (case get_field (Val c) Field_secret of
                  Inl e \<Rightarrow> Inl e
                | Inr k \<Rightarrow>
                    if strict_eq k sec then Inr (Some 0)
                    else next_index (findIndex cs cid sec)))"

text \<open>
  \<^verbatim>\<open>c.openaiApiKey = apiKey\<close> in strict mode. Only an object can be the element that
  \<^verbatim>\<open>findIndex\<close> selected, since only an object has an \<^verbatim>\<open>id\<close>.
\<close>

fun set_openaiApiKey :: "json \<Rightarrow> json \<Rightarrow> js_error + json" where
  "set_openaiApiKey (JObj m) k = Inr (JObj (AList.update (field_name Field_openaiApiKey) k m))"
| "set_openaiApiKey c k = Inl TypeError"

section \<open>Prompt composition and answer extraction\<close>

text \<open>The template literal of \<^verbatim>\<open>/api/ia\<close>, trimmed.\<close>

definition fullPrompt :: "jsval \<Rightarrow> jsval \<Rightarrow> js_error + jsstring" where
  "fullPrompt p sel =
     (case to_string_val p of
        Inl e \<Rightarrow> Inl e
      | Inr a \<Rightarrow>
          (case to_string_val (js_or sel (Val (JStr placeholder))) of
             Inl e \<Rightarrow> Inl e
           | Inr b \<Rightarrow> Inr (trim (prompt_head @ a @ prompt_middle @ b @ prompt_tail))))"

text \<open>\<^verbatim>\<open>clientRecord.openaiApiKey || process.env.OPENAI_API_KEY\<close>\<close>

definition resolve_key :: "world \<Rightarrow> jsval \<Rightarrow> js_error + jsval" where
  "resolve_key w clientRecord =
     (case get_field clientRecord Field_openaiApiKey of
        Inl e \<Rightarrow> Inl e
      | Inr k \<Rightarrow> Inr (js_or k (OPENAI_API_KEY w)))"

text \<open>\<^verbatim>\<open>assistants[clientId] || "..."\<close>\<close>

definition customSystemPrompt :: "(jsstring \<times> json) list \<Rightarrow> jsstring \<Rightarrow> member" where
  "customSystemPrompt a k =
     (case obj_get a k of
        Own v \<Rightarrow> if truthy_json v then Own v else Own (JStr default_persona)
      | Proto n \<Rightarrow> Proto n
      | Absent \<Rightarrow> Own (JStr default_persona))"

text \<open>The guarded extraction of \<^verbatim>\<open>/api/ia\<close>; no step of it can throw.\<close>

definition answer :: "jsval \<Rightarrow> jsstring" where
  "answer completion =
     (if \<not> truthy completion then answer_fallback
      else case get_field completion Field_choices of
        Inr (Val (JArr (choice # rest))) \<Rightarrow>
          if \<not> truthy (Val choice) then answer_fallback
          else (case get_field (Val choice) Field_message of
                  Inr message \<Rightarrow>
                    if \<not> truthy message then answer_fallback
                    else (case get_field message Field_content of
                            Inr (Val (JStr s)) \<Rightarrow> trim s
                          | _ \<Rightarrow> answer_fallback)
                | Inl e \<Rightarrow> answer_fallback)
      | _ \<Rightarrow> answer_fallback)"

text \<open>
  The extraction of \<^verbatim>\<open>/api/configure\<close> and \<^verbatim>\<open>/api/analyze\<close>, which differ in the
  fallback text only. The member chain \<^verbatim>\<open>choices[0].message.content\<close> and the call of
  \<^verbatim>\<open>trim\<close> are not guarded.
\<close>

definition content_or :: "world \<Rightarrow> jsstring \<Rightarrow> jsval \<Rightarrow> js_error + jsstring" where
  "content_or w fallback completion =
     (if \<not> truthy completion then Inr fallback
      else case get_field completion Field_choices of
        Inl e \<Rightarrow> Inl e
      | Inr choices \<Rightarrow>
          if \<not> truthy choices then Inr fallback
          else (case gt_zero (string_positive w) (js_length choices) of
                  Inl e \<Rightarrow> Inl e
                | Inr False \<Rightarrow> Inr fallback
                | Inr True \<Rightarrow>
                    (case get_field (first_element choices) Field_message of
                       Inl e \<Rightarrow> Inl e
                     | Inr message \<Rightarrow>
                         (case get_field message Field_content of
                            Inl e \<Rightarrow> Inl e
                          | Inr content \<Rightarrow>
                              if \<not> truthy content then Inr fallback
                              else (case content of
                                      Val (JStr s) \<Rightarrow> Inr (trim s)
                                    | _ \<Rightarrow> Inl TypeError)))))"

section \<open>Request handlers\<close>

text \<open>
  Each handler is the body of its \<^verbatim>\<open>try\<close> block, which returns a response or throws,
  together with the completion calls made and the state left behind, and then the
  \<^verbatim>\<open>catch\<close> block, which turns a thrown error into a 500. Building the OpenAI client
  does not throw for a key that is present.
\<close>

type_synonym 'a attempt = "(js_error + 'a) \<times> completion_call list \<times> state"

definition catch :: "jsstring option \<Rightarrow> response attempt \<Rightarrow> response \<times> completion_call list \<times> state" where
  "catch d r =
     (case r of
        (Inl e, cs, s) \<Rightarrow> (reply 500 (Caught e d), cs, s)
      | (Inr x, cs, s) \<Rightarrow> (x, cs, s))"

subsection \<open>\<^verbatim>\<open>POST /api/ia\<close>\<close>

definition api_ia_try :: "world \<Rightarrow> state \<Rightarrow> request \<Rightarrow> response attempt" where
  "api_ia_try w s req =
     (if \<not> truthy (clientId req) \<or> \<not> truthy (clientSecret req)
      then (Inr (reply 400 (Error msg_missing_credentials)), [], s)
      else case getClientRecord (clients s) (clientId req) (clientSecret req) of
        Inl e \<Rightarrow> (Inl e, [], s)
      | Inr clientRecord \<Rightarrow>
          if \<not> truthy clientRecord
          then (Inr (reply 401 (Error msg_invalid_credentials)), [], s)
          else if \<not> truthy (prompt req)
          then (Inr (reply 400 (Error msg_missing_prompt)), [], s)
          else (case fullPrompt (prompt req) (selectedText req) of
            Inl e \<Rightarrow> (Inl e, [], s)
          | Inr user \<Rightarrow>
              (case resolve_key w clientRecord of
                 Inl e \<Rightarrow> (Inl e, [], s)
               | Inr key \<Rightarrow>
                   if \<not> truthy key
                   then (Inr (reply 500 (Error msg_no_key_for_client)), [], s)
                   else (let s1 = loadAssistants s in
                     case to_string_val (clientId req) of
                       Inl e \<Rightarrow> (Inl e, [], s1)
                     | Inr k \<Rightarrow>
                         (let call = \<lparr>call_key = key, call_model = model_name,
                                      call_system = customSystemPrompt (assistants s1) k,
                                      call_user = user, call_temperature_tenths = 3\<rparr>
                          in case complete w call of
                            Inl e \<Rightarrow> (Inl e, [call], s1)
                          | Inr completion \<Rightarrow>
                              (Inr (reply 200
                                 (Generated (answer completion)
                                    (js_or (mode req) (Val (JStr replace_mode))))),
                               [call], s1))))))"

definition api_ia :: "world \<Rightarrow> state \<Rightarrow> request \<Rightarrow> response \<times> completion_call list \<times> state" where
  "api_ia w s req = catch (Some (str ''Erro interno'')) (api_ia_try w s req)"

subsection \<open>\<^verbatim>\<open>POST /api/configure\<close>\<close>

definition api_configure_try :: "world \<Rightarrow> state \<Rightarrow> request \<Rightarrow> response attempt" where
  "api_configure_try w s req =
     (if \<not> truthy (clientId req) \<or> \<not> truthy (clientSecret req)
      then (Inr (reply 400 (Error msg_missing_credentials)), [], s)
      else case getClientRecord (clients s) (clientId req) (clientSecret req) of
        Inl e \<Rightarrow> (Inl e, [], s)
      | Inr clientRecord \<Rightarrow>
          if \<not> truthy clientRecord
          then (Inr (reply 401 (Error msg_invalid_credentials)), [], s)
          else if \<not> truthy (rawPrompt req)
          then (Inr (reply 400 (Error msg_missing_rawPrompt)), [], s)
          else (case resolve_key w clientRecord of
            Inl e \<Rightarrow> (Inl e, [], s)
          | Inr key \<Rightarrow>
              if \<not> truthy key
              then (Inr (reply 500 (Error msg_no_key)), [], s)
              else (case to_string_val (rawPrompt req) of
                Inl e \<Rightarrow> (Inl e, [], s)
              | Inr raw \<Rightarrow>
                  (let call = \<lparr>call_key = key, call_model = model_name,
                               call_system = Own (JStr optimizer_persona),
                               call_user = optimize_lead @ raw @ [0x22],
                               call_temperature_tenths = 7\<rparr>
                   in case complete w call of
                     Inl e \<Rightarrow> (Inl e, [call], s)
                   | Inr completion \<Rightarrow>
                       (case content_or w optimized_fallback completion of
                          Inl e \<Rightarrow> (Inl e, [call], s)
                        | Inr optimizedPrompt \<Rightarrow>
                            (case saveAssistant s (clientId req) optimizedPrompt of
                               (Inl e, s1) \<Rightarrow> (Inl e, [call], s1)
                             | (Inr u, s1) \<Rightarrow>
                                 (Inr (reply 200 (Configured optimizedPrompt)), [call], s1)))))))"

definition api_configure :: "world \<Rightarrow> state \<Rightarrow> request \<Rightarrow> response \<times> completion_call list \<times> state" where
  "api_configure w s req = catch (Some (str ''Internal Error'')) (api_configure_try w s req)"

subsection \<open>\<^verbatim>\<open>POST /api/analyze\<close>\<close>

definition api_analyze_try :: "world \<Rightarrow> state \<Rightarrow> request \<Rightarrow> response attempt" where
  "api_analyze_try w s req =
     (if \<not> truthy (clientId req) \<or> \<not> truthy (clientSecret req)
      then (Inr (reply 400 (Error msg_missing_credentials)), [], s)
      else case getClientRecord (clients s) (clientId req) (clientSecret req) of
        Inl e \<Rightarrow> (Inl e, [], s)
      | Inr clientRecord \<Rightarrow>
          if \<not> truthy clientRecord
          then (Inr (reply 401 (Error msg_invalid_credentials)), [], s)
          else if \<not> truthy (documentText req)
          then (Inr (reply 400 (Error msg_missing_documentText)), [], s)
          else (case resolve_key w clientRecord of
            Inl e \<Rightarrow> (Inl e, [], s)
          | Inr key \<Rightarrow>
              if \<not> truthy key
              then (Inr (reply 500 (Error msg_no_key)), [], s)
              else (case to_string_val (documentText req) of
                Inl e \<Rightarrow> (Inl e, [], s)
              | Inr doc \<Rightarrow>
                  (let call = \<lparr>call_key = key, call_model = model_name,
                               call_system = Own (JStr EXPERT_PROMPT),
                               call_user = analysis_lead @ doc,
                               call_temperature_tenths = 4\<rparr>
                   in case complete w call of
                     Inl e \<Rightarrow> (Inl e, [call], s)
                   | Inr completion \<Rightarrow>
                       (case content_or w analysis_fallback completion of
                          Inl e \<Rightarrow> (Inl e, [call], s)
                        | Inr analysis \<Rightarrow> (Inr (reply 200 (Analysis analysis)), [call], s))))))"

definition api_analyze :: "world \<Rightarrow> state \<Rightarrow> request \<Rightarrow> response \<times> completion_call list \<times> state" where
  "api_analyze w s req = catch (Some (str ''Internal Error'')) (api_analyze_try w s req)"

subsection \<open>\<^verbatim>\<open>POST /api/save-key\<close>\<close>

text \<open>
  The handler reads the tenant file anew; a missing file gives the empty list, and a value
  that is not an array has no \<^verbatim>\<open>findIndex\<close> to call. It makes no completion call.
\<close>

definition read_allClients :: "state \<Rightarrow> js_error + json" where
  "read_allClients s =
     (case clients_file s of
        Missing \<Rightarrow> Inr (JArr [])
      | Corrupt \<Rightarrow> Inl FileError
      | Holds v \<Rightarrow> Inr v)"

definition api_save_key_try :: "state \<Rightarrow> request \<Rightarrow> (js_error + response) \<times> state" where
  "api_save_key_try s req =
     (if \<not> truthy (clientId req) \<or> \<not> truthy (clientSecret req)
      then (Inr (reply 400 (Error msg_missing_credentials)), s)
      else case apiKey req of
        Undefined \<Rightarrow> (Inr (reply 400 (Error msg_missing_apiKey)), s)
      | Val key \<Rightarrow>
          if \<not> truthy_json key
          then (Inr (reply 400 (Error msg_missing_apiKey)), s)
          else (case getClientRecord (clients s) (clientId req) (clientSecret req) of
            Inl e \<Rightarrow> (Inl e, s)
          | Inr clientRecord \<Rightarrow>
              if \<not> truthy clientRecord
              then (Inr (reply 401 (Error msg_invalid_credentials)), s)
              else (case read_allClients s of
                Inl e \<Rightarrow> (Inl e, s)
              | Inr (JArr allClients) \<Rightarrow>
                  (case findIndex allClients (clientId req) (clientSecret req) of
                     Inl e \<Rightarrow> (Inl e, s)
                   | Inr None \<Rightarrow> (Inr (reply 500 (Error msg_not_in_file)), s)
                   | Inr (Some clientIndex) \<Rightarrow>
                       (case set_openaiApiKey (allClients ! clientIndex) key of
                          Inl e \<Rightarrow> (Inl e, s)
                        | Inr c \<Rightarrow>
                            (let updated = allClients[clientIndex := c]
                             in (Inr (reply 200 (Saved key_saved_message)),
                                 s\<lparr>clients := updated, clients_file := Holds (JArr updated)\<rparr>))))
              | Inr other \<Rightarrow> (Inl TypeError, s))))"

definition api_save_key :: "state \<Rightarrow> request \<Rightarrow> response \<times> state" where
  "api_save_key s req =
     (case api_save_key_try s req of
        (Inl e, s1) \<Rightarrow> (reply 500 (Caught e None), s1)
      | (Inr r, s1) \<Rightarrow> (r, s1))"

section \<open>Notions of the specification\<close>

text \<open>
  A tenant record matches a presented pair when its id equals the presented id and its
  secret is non-empty and equals the presented secret.
\<close>

definition tenant_matches :: "json \<Rightarrow> jsval \<Rightarrow> jsval \<Rightarrow> bool" where
  "tenant_matches c cid sec =
     (case (get_field (Val c) Field_id, get_field (Val c) Field_secret) of
        (Inr i, Inr k) \<Rightarrow> strict_eq i cid \<and> truthy k \<and> strict_eq k sec
      | _ \<Rightarrow> False)"

text \<open>The invariant of the tenant collection: no two records share an id.\<close>

definition unique_ids :: "json list \<Rightarrow> bool" where
  "unique_ids cs \<longleftrightarrow>
     (\<forall>c\<in>set cs. \<forall>d\<in>set cs.
        get_field (Val c) Field_id = get_field (Val d) Field_id \<longrightarrow> c = d)"

text \<open>
  The key stored with a tenant record, and the key the resolution policy prefers: the stored
  key when present, else the default key of the environment.
\<close>

definition stored_key :: "json \<Rightarrow> jsval" where
  "stored_key c = (case c of JObj m \<Rightarrow> own m (str ''openaiApiKey'') | _ \<Rightarrow> Undefined)"

definition preferred_key :: "world \<Rightarrow> json \<Rightarrow> jsval" where
  "preferred_key w c = (if truthy (stored_key c) then stored_key c else OPENAI_API_KEY w)"

text \<open>
  The first choice's message content, when the response has a non-empty array of choices
  and that content is a string.
\<close>

definition first_choice_content :: "jsval \<Rightarrow> jsstring option" where
  "first_choice_content completion =
     (case completion of
        Val (JObj r) \<Rightarrow>
          (case map_of r (str ''choices'') of
             Some (JArr (JObj choice # rest)) \<Rightarrow>
               (case map_of choice (str ''message'') of
                  Some (JObj message) \<Rightarrow>
                    (case map_of message (str ''content'') of
                       Some (JStr s) \<Rightarrow> Some s
                     | _ \<Rightarrow> None)
                | _ \<Rightarrow> None)
           | _ \<Rightarrow> None)
      | _ \<Rightarrow> None)"

subsection \<open>Sample data\<close>

definition tenant_acme :: json where
  "tenant_acme =
     JObj [(str ''id'', JStr (str ''acme'')), (str ''secret'', JStr (str ''s3cret'')),
           (str ''openaiApiKey'', JStr (str ''sk-acme''))]"

definition tenant_beta :: json where
  "tenant_beta = JObj [(str ''id'', JStr (str ''beta'')), (str ''secret'', JStr (str ''hunter2''))]"

definition sample_state :: state where
  "sample_state = startup (Holds (JArr [tenant_acme, tenant_beta])) Missing"

definition no_fields :: request where
  "no_fields =
     \<lparr>clientId = Undefined, clientSecret = Undefined, prompt = Undefined,
      selectedText = Undefined, mode = Undefined, rawPrompt = Undefined,
      documentText = Undefined, apiKey = Undefined\<rparr>"

definition as_beta :: request where
  "as_beta = no_fields\<lparr>clientId := Val (JStr (str ''beta'')), clientSecret := Val (JStr (str ''hunter2''))\<rparr>"

definition as_acme :: request where
  "as_acme = no_fields\<lparr>clientId := Val (JStr (str ''acme'')), clientSecret := Val (JStr (str ''s3cret''))\<rparr>"

definition as_stranger :: request where
  "as_stranger = no_fields\<lparr>clientId := Val (JStr (str ''beta'')), clientSecret := Val (JStr (str ''guess''))\<rparr>"



definition empty_document :: request where
  "empty_document = as_stranger\<lparr>documentText := Val (JStr [])\<rparr>"

definition contract_review :: request where
  "contract_review = as_acme\<lparr>documentText := Val (JStr (str ''Contrato''))\<rparr>"


text \<open>The example request of the specification.\<close>

definition summarize :: request where
  "summarize =
     as_acme\<lparr>prompt := Val (JStr (str ''Resuma isto'')),
             selectedText := Val (JStr (str ''Lorem ipsum''))\<rparr>"

text \<open>A completion whose first choice carries the given content.\<close>

definition completion_with :: "json \<Rightarrow> jsval" where
  "completion_with content =
     Val (JObj [(str ''choices'',
                 JArr [JObj [(str ''message'', JObj [(str ''content'', content)])]])])"

text \<open>A world without a default key, whose service answers every call with the same text.\<close>

definition sample_world :: world where
  "sample_world =
     \<lparr>OPENAI_API_KEY = Undefined,
      complete = (\<lambda>call. Inr (completion_with (JStr (str '' Feito. '')))),
      string_positive = (\<lambda>s. False)\<rparr>"

definition save_beta_key :: request where
  "save_beta_key = as_beta\<lparr>apiKey := Val (JStr (str ''sk-beta''))\<rparr>"



text \<open>A tenant whose id is a property name of special meaning, and its Configure request.\<close>

definition tenant_proto :: json where
  "tenant_proto =
     JObj [(str ''id'', JStr (str ''__proto__'')), (str ''secret'', JStr (str ''pw'')),
           (str ''openaiApiKey'', JStr (str ''sk-proto''))]"

definition proto_state :: state where
  "proto_state = startup (Holds (JArr [tenant_proto])) Missing"

definition configure_proto :: request where
  "configure_proto =
     no_fields\<lparr>clientId := Val (JStr (str ''__proto__'')), clientSecret := Val (JStr (str ''pw'')),
               rawPrompt := Val (JStr (str ''Advogado Civilista''))\<rparr>"

definition persona_world :: world where
  "persona_world = sample_world\<lparr>complete := (\<lambda>call. Inr (completion_with (JStr (str ''Persona''))))\<rparr>"

text \<open>
  Worlds whose service answers every call with a first choice that has no message, and
  with a first choice whose message content is the empty string.
\<close>

definition headless_world :: world where
  "headless_world =
     sample_world\<lparr>complete := (\<lambda>call. Inr (Val (JObj [(str ''choices'', JArr [JObj []])])))\<rparr>"

definition silent_world :: world where
  "silent_world = sample_world\<lparr>complete := (\<lambda>call. Inr (completion_with (JStr [])))\<rparr>"

section \<open>The tenant lookup\<close>

lemma get_field_Val_total: "c \<noteq> JNull \<Longrightarrow> \<exists>v. get_field (Val c) f = Inr v"
  by (cases c) simp_all

lemma find_client_find:
  "JNull \<notin> set cs \<Longrightarrow>
   find_client cs cid sec =
     Inr (case List.find (\<lambda>c. tenant_matches c cid sec) cs of
            None \<Rightarrow> Undefined
          | Some c \<Rightarrow> Val c)"
proof (induction cs)
  case Nil
  then show ?case by simp
next
  case (Cons c cs)
  then have c: "c \<noteq> JNull" and rest: "JNull \<notin> set cs" by auto
  obtain i where i: "get_field (Val c) Field_id = Inr i"
    using get_field_Val_total [OF c] by blast
  obtain k where k: "get_field (Val c) Field_secret = Inr k"
    using get_field_Val_total [OF c] by blast
  show ?case
    using Cons.IH [OF rest] i k by (simp add: tenant_matches_def)
qed

lemma strict_eq_same: "strict_eq a c \<Longrightarrow> strict_eq b c \<Longrightarrow> a = b"
  by (cases a; cases b; cases c) (auto elim: same_primitive.elims)

lemma tenant_matches_same_id:
  "tenant_matches c cid sec \<Longrightarrow> tenant_matches d cid sec \<Longrightarrow>
   get_field (Val c) Field_id = get_field (Val d) Field_id"
  by (auto simp: tenant_matches_def split: sum.splits dest: strict_eq_same)

lemma find_unique:
  assumes "unique_ids cs" "c \<in> set cs" "tenant_matches c cid sec"
  shows "List.find (\<lambda>c. tenant_matches c cid sec) cs = Some c"
proof -
  from assms(2,3) obtain d where d: "List.find (\<lambda>c. tenant_matches c cid sec) cs = Some d"
    by (cases "List.find (\<lambda>c. tenant_matches c cid sec) cs") (auto simp: find_None_iff)
  then have "d \<in> set cs" "tenant_matches d cid sec"
    by (auto simp: find_Some_iff)
  with assms tenant_matches_same_id [of c cid sec d] have "c = d"
    by (auto simp: unique_ids_def)
  with d show ?thesis by simp
qed

lemma getClientRecord_found_iff:
  assumes "JNull \<notin> set cs" "unique_ids cs"
  shows "getClientRecord cs cid sec = Inr (Val c) \<longleftrightarrow>
         truthy cid \<and> truthy sec \<and> c \<in> set cs \<and> tenant_matches c cid sec"
proof
  assume "getClientRecord cs cid sec = Inr (Val c)"
  then show "truthy cid \<and> truthy sec \<and> c \<in> set cs \<and> tenant_matches c cid sec"
    using assms(1)
    by (auto simp: getClientRecord_def find_client_find find_Some_iff
             split: if_splits option.splits)
next
  assume "truthy cid \<and> truthy sec \<and> c \<in> set cs \<and> tenant_matches c cid sec"
  then show "getClientRecord cs cid sec = Inr (Val c)"
    using assms find_unique [of cs c cid sec]
    by (simp add: getClientRecord_def find_client_find)
qed

lemma getClientRecord_not_found_iff:
  assumes "JNull \<notin> set cs"
  shows "getClientRecord cs cid sec = Inr Undefined \<longleftrightarrow>
         \<not> (truthy cid \<and> truthy sec \<and> (\<exists>c\<in>set cs. tenant_matches c cid sec))"
  using assms
  by (auto simp: getClientRecord_def find_client_find find_None_iff find_Some_iff
           split: option.splits)

lemma not_found_ia:
  "truthy (clientId req) \<Longrightarrow> truthy (clientSecret req) \<Longrightarrow>
   getClientRecord (clients s) (clientId req) (clientSecret req) = Inr Undefined \<Longrightarrow>
   api_ia w s req = (reply 401 (Error msg_invalid_credentials), [], s)"
  by (simp add: api_ia_def api_ia_try_def catch_def)

lemma not_found_configure:
  "truthy (clientId req) \<Longrightarrow> truthy (clientSecret req) \<Longrightarrow>
   getClientRecord (clients s) (clientId req) (clientSecret req) = Inr Undefined \<Longrightarrow>
   api_configure w s req = (reply 401 (Error msg_invalid_credentials), [], s)"
  by (simp add: api_configure_def api_configure_try_def catch_def)

lemma not_found_analyze:
  "truthy (clientId req) \<Longrightarrow> truthy (clientSecret req) \<Longrightarrow>
   getClientRecord (clients s) (clientId req) (clientSecret req) = Inr Undefined \<Longrightarrow>
   api_analyze w s req = (reply 401 (Error msg_invalid_credentials), [], s)"
  by (simp add: api_analyze_def api_analyze_try_def catch_def)

lemma not_found_save_key:
  "truthy (clientId req) \<Longrightarrow> truthy (clientSecret req) \<Longrightarrow> truthy (apiKey req) \<Longrightarrow>
   getClientRecord (clients s) (clientId req) (clientSecret req) = Inr Undefined \<Longrightarrow>
   api_save_key s req = (reply 401 (Error msg_invalid_credentials), s)"
  by (cases "apiKey req") (simp_all add: api_save_key_def api_save_key_try_def)

lemma sample_clients: "clients sample_state = [tenant_acme, tenant_beta]"
  by (simp add: sample_state_def startup_def loadAssistants_def load_clients_def)

lemma sample_clients_wellformed:
  "JNull \<notin> set (clients sample_state) \<and> unique_ids (clients sample_state)"
  by (simp add: sample_clients unique_ids_def tenant_acme_def tenant_beta_def own_def str_def)

text \<open>
  C1. On a tenant list without a null entry and with unique ids, the lookup returns a
  record exactly when both presented fields are non-empty and the record is in the list,
  has the presented id and has a non-empty secret equal to the presented one; it returns
  not-found exactly when a field is empty or no record matches. Every handler that reaches
  the lookup with a pair it does not find answers 401: \<^verbatim>\<open>/api/ia\<close>, \<^verbatim>\<open>/api/configure\<close>
  and \<^verbatim>\<open>/api/analyze\<close> reach it whenever both fields are non-empty,
  \<^verbatim>\<open>/api/save-key\<close> when the request carries an apiKey as well.
\<close>

theorem lookup_returns_matching_tenant:
  assumes "JNull \<notin> set (clients s)" and "unique_ids (clients s)"
  shows "(\<forall>c. getClientRecord (clients s) (clientId req) (clientSecret req) = Inr (Val c) \<longleftrightarrow>
            truthy (clientId req) \<and> truthy (clientSecret req) \<and> c \<in> set (clients s) \<and>
            tenant_matches c (clientId req) (clientSecret req))
       \<and> (getClientRecord (clients s) (clientId req) (clientSecret req) = Inr Undefined \<longleftrightarrow>
            \<not> (truthy (clientId req) \<and> truthy (clientSecret req) \<and>
               (\<exists>c\<in>set (clients s). tenant_matches c (clientId req) (clientSecret req))))
       \<and> (truthy (clientId req) \<and> truthy (clientSecret req) \<and>
            getClientRecord (clients s) (clientId req) (clientSecret req) = Inr Undefined \<longrightarrow>
            fst (api_ia w s req) = reply 401 (Error msg_invalid_credentials) \<and>
            fst (api_configure w s req) = reply 401 (Error msg_invalid_credentials) \<and>
            fst (api_analyze w s req) = reply 401 (Error msg_invalid_credentials) \<and>
            (truthy (apiKey req) \<longrightarrow>
               fst (api_save_key s req) = reply 401 (Error msg_invalid_credentials)))"
  using getClientRecord_found_iff [OF assms] getClientRecord_not_found_iff [OF assms(1)]
  by (simp add: not_found_ia not_found_configure not_found_analyze not_found_save_key)

theorem lookup_returns_matching_tenant_witness:
  "JNull \<notin> set (clients sample_state) \<and> unique_ids (clients sample_state)
   \<and> getClientRecord (clients sample_state) (clientId as_beta) (clientSecret as_beta)
       = Inr (Val tenant_beta)
   \<and> getClientRecord (clients sample_state) (clientId as_stranger) (clientSecret as_stranger)
       = Inr Undefined
   \<and> status (fst (api_ia sample_world sample_state as_stranger)) = 401"
proof -
  have wf: "JNull \<notin> set (clients sample_state)" and un: "unique_ids (clients sample_state)"
    using sample_clients_wellformed by simp_all
  have beta: "truthy (clientId as_beta) \<and> truthy (clientSecret as_beta)
      \<and> tenant_beta \<in> set (clients sample_state)
      \<and> tenant_matches tenant_beta (clientId as_beta) (clientSecret as_beta)"
    by (simp add: sample_clients as_beta_def no_fields_def tenant_matches_def tenant_beta_def
        own_def str_def)
  have stranger: "truthy (clientId as_stranger) \<and> truthy (clientSecret as_stranger)
      \<and> \<not> (\<exists>c\<in>set (clients sample_state).
              tenant_matches c (clientId as_stranger) (clientSecret as_stranger))"
    by (simp add: sample_clients as_stranger_def no_fields_def tenant_matches_def
        tenant_acme_def tenant_beta_def own_def str_def)
  show ?thesis
    using wf un beta stranger
      lookup_returns_matching_tenant [OF wf un, of as_beta sample_world]
      lookup_returns_matching_tenant [OF wf un, of as_stranger sample_world]
    by (simp add: reply_def)
qed

section \<open>Authenticated requests\<close>

lemma find_client_found:
  "find_client cs cid sec = Inr (Val c) \<Longrightarrow>
   (\<exists>m. c = JObj m) \<and> c \<in> set cs \<and> tenant_matches c cid sec"
proof (induction cs)
  case Nil
  then show ?case by simp
next
  case (Cons d cs)
  show ?case
  proof (cases d)
    case (JObj m)
    with Cons show ?thesis
      by (auto simp: tenant_matches_def split: if_splits)
  qed (use Cons in \<open>auto simp: tenant_matches_def split: if_splits\<close>)
qed

lemma getClientRecord_found:
  assumes "getClientRecord cs cid sec = Inr (Val c)"
  shows "truthy cid \<and> truthy sec \<and> (\<exists>m. c = JObj m) \<and> c \<in> set cs \<and> tenant_matches c cid sec"
  using assms find_client_found [of cs cid sec c]
  by (auto simp: getClientRecord_def split: if_splits)

lemma resolve_key_record:
  "resolve_key w (Val (JObj m)) = Inr (preferred_key w (JObj m))"
  by (simp add: resolve_key_def preferred_key_def stored_key_def js_or_def)

lemma loadAssistants_clients [simp]: "clients (loadAssistants s) = clients s"
  by (simp add: loadAssistants_def split: disk_file.splits)

lemma loadAssistants_clients_file [simp]: "clients_file (loadAssistants s) = clients_file s"
  by (simp add: loadAssistants_def split: disk_file.splits)

lemma loadAssistants_assistants_file [simp]: "assistants_file (loadAssistants s) = assistants_file s"
  by (simp add: loadAssistants_def split: disk_file.splits)

lemma loadAssistants_idem [simp]: "loadAssistants (loadAssistants s) = loadAssistants s"
  by (simp add: loadAssistants_def split: disk_file.splits)







lemma strict_eq_to_string:
  "strict_eq i cid \<Longrightarrow> truthy cid \<Longrightarrow> \<exists>k. to_string_val cid = Inr k"
  by (cases i; cases cid) (auto elim!: same_primitive.elims split: jsval.splits)

lemma authenticated_id_converts:
  assumes "getClientRecord cs cid sec = Inr (Val c)"
  shows "\<exists>k. to_string_val cid = Inr k"
  using getClientRecord_found [OF assms] strict_eq_to_string
  by (auto simp: tenant_matches_def split: sum.splits)

lemma analyze_with_key:
  assumes "getClientRecord (clients s) (clientId req) (clientSecret req) = Inr (Val c)"
    and "truthy (preferred_key w c)" and "truthy (documentText req)"
    and "to_string_val (documentText req) = Inr doc"
  shows "fst (snd (api_analyze w s req)) =
           [\<lparr>call_key = preferred_key w c, call_model = model_name,
             call_system = Own (JStr EXPERT_PROMPT), call_user = analysis_lead @ doc,
             call_temperature_tenths = 4\<rparr>]"
proof -
  from getClientRecord_found [OF assms(1)] obtain m where c: "c = JObj m"
    and t: "truthy (clientId req)" "truthy (clientSecret req)" by blast
  show ?thesis
    using assms t
    by (auto simp: api_analyze_def api_analyze_try_def catch_def c resolve_key_record Let_def
             split: sum.splits if_splits)
qed

lemma configure_with_key:
  assumes "getClientRecord (clients s) (clientId req) (clientSecret req) = Inr (Val c)"
    and "truthy (preferred_key w c)" and "truthy (rawPrompt req)"
    and "to_string_val (rawPrompt req) = Inr raw"
  shows "fst (snd (api_configure w s req)) =
           [\<lparr>call_key = preferred_key w c, call_model = model_name,
             call_system = Own (JStr optimizer_persona),
             call_user = optimize_lead @ raw @ [0x22],
             call_temperature_tenths = 7\<rparr>]"
proof -
  from getClientRecord_found [OF assms(1)] obtain m where c: "c = JObj m"
    and t: "truthy (clientId req)" "truthy (clientSecret req)" by blast
  show ?thesis
    using assms t
    by (auto simp: api_configure_def api_configure_try_def catch_def c resolve_key_record Let_def
             split: sum.splits if_splits prod.splits)
qed

lemma ia_with_key:
  assumes "getClientRecord (clients s) (clientId req) (clientSecret req) = Inr (Val c)"
    and "truthy (preferred_key w c)" and "truthy (prompt req)"
    and "fullPrompt (prompt req) (selectedText req) = Inr user"
  shows "\<exists>k. to_string_val (clientId req) = Inr k \<and>
           fst (snd (api_ia w s req)) =
           [\<lparr>call_key = preferred_key w c, call_model = model_name,
             call_system = customSystemPrompt (assistants (loadAssistants s)) k,
             call_user = user, call_temperature_tenths = 3\<rparr>]"
proof -
  from getClientRecord_found [OF assms(1)] obtain m where c: "c = JObj m"
    and t: "truthy (clientId req)" "truthy (clientSecret req)" by blast
  from authenticated_id_converts [OF assms(1)] obtain k
    where k: "to_string_val (clientId req) = Inr k" by blast
  show ?thesis
    using assms t k
    by (auto simp: api_ia_def api_ia_try_def catch_def c resolve_key_record Let_def
             split: sum.splits if_splits)
qed

section \<open>API-key resolution\<close>




section \<open>Loading the override store\<close>




section \<open>Rejections\<close>

text \<open>
  C6, as stated, fails: \<^verbatim>\<open>/api/save-key\<close> checks that the fields are present before it
  looks the pair up. Here a pair that matches no tenant comes without an apiKey, and the
  answer is 400.
\<close>

theorem save_key_checks_apiKey_before_credentials:
  "getClientRecord (clients sample_state) (clientId as_stranger) (clientSecret as_stranger)
     = Inr Undefined
   \<and> truthy (clientId as_stranger) \<and> truthy (clientSecret as_stranger)
   \<and> fst (api_save_key sample_state as_stranger) = reply 400 (Error msg_missing_apiKey)"
  by (simp add: sample_clients api_save_key_def api_save_key_try_def getClientRecord_def
      as_stranger_def no_fields_def tenant_acme_def tenant_beta_def own_def str_def)

text \<open>
  C6 (amended). For every save-key request whose pair matches no record of the tenant
  list, the handler performs no write: the tenant file and the list in memory are
  unchanged. It answers 401 when clientId, clientSecret and apiKey are all non-empty, and
  400 when one of them is empty.
\<close>

theorem save_key_unknown_pair:
  assumes "getClientRecord (clients s) (clientId req) (clientSecret req) = Inr Undefined"
  shows "snd (api_save_key s req) = s
       \<and> status (fst (api_save_key s req)) =
           (if truthy (clientId req) \<and> truthy (clientSecret req) \<and> truthy (apiKey req)
            then 401 else 400)"
  using assms
  by (cases "apiKey req") (auto simp: api_save_key_def api_save_key_try_def reply_def)

theorem save_key_unknown_pair_witness:
  "getClientRecord (clients sample_state) (clientId (as_stranger\<lparr>apiKey := Val (JStr (str ''sk-new''))\<rparr>))
       (clientSecret (as_stranger\<lparr>apiKey := Val (JStr (str ''sk-new''))\<rparr>)) = Inr Undefined
   \<and> api_save_key sample_state (as_stranger\<lparr>apiKey := Val (JStr (str ''sk-new''))\<rparr>)
       = (reply 401 (Error msg_invalid_credentials), sample_state)"
proof -
  let ?req = "as_stranger\<lparr>apiKey := Val (JStr (str ''sk-new''))\<rparr>"
  have h: "getClientRecord (clients sample_state) (clientId ?req) (clientSecret ?req) = Inr Undefined"
    by (simp add: sample_clients getClientRecord_def
      as_stranger_def no_fields_def tenant_acme_def tenant_beta_def own_def str_def)
  have t: "truthy (clientId ?req) \<and> truthy (clientSecret ?req) \<and> truthy (apiKey ?req)"
    by (simp add: as_stranger_def no_fields_def str_def)
  have p: "payload (fst (api_save_key sample_state ?req)) = Error msg_invalid_credentials"
    using not_found_save_key [of ?req sample_state] h t by (simp add: reply_def)
  show ?thesis
    using h t p save_key_unknown_pair [OF h]
    by (simp add: reply_def prod_eq_iff)
qed

text \<open>
  C9, as stated, fails: \<^verbatim>\<open>/api/analyze\<close> authenticates before it looks at the document.
  Here an empty document comes with credentials that match no tenant, and the answer
  is 401.
\<close>

theorem analyze_checks_credentials_before_document:
  "documentText empty_document = Val (JStr [])
   \<and> fst (api_analyze sample_world sample_state empty_document)
       = reply 401 (Error msg_invalid_credentials)"
  by (simp add: sample_clients api_analyze_def api_analyze_try_def catch_def getClientRecord_def
      empty_document_def as_stranger_def no_fields_def tenant_acme_def tenant_beta_def own_def str_def)

lemma getClientRecord_cases:
  assumes "JNull \<notin> set cs"
  shows "getClientRecord cs cid sec = Inr Undefined \<or> (\<exists>c. getClientRecord cs cid sec = Inr (Val c))"
  using assms
  by (auto simp: getClientRecord_def find_client_find split: option.splits)

text \<open>
  C9 (amended). For every Analyze request whose documentText is the empty string, no
  completion call is made and the state is unchanged. The handler answers 400 when a
  credential is missing or the credentials match a tenant, and 401 when both credentials
  are present and match no tenant; on a tenant list without a null entry these are the
  only answers.
\<close>

theorem analyze_empty_document:
  assumes "documentText req = Val (JStr [])"
  shows "fst (snd (api_analyze w s req)) = [] \<and> snd (snd (api_analyze w s req)) = s
       \<and> (\<not> truthy (clientId req) \<or> \<not> truthy (clientSecret req) \<longrightarrow>
            fst (api_analyze w s req) = reply 400 (Error msg_missing_credentials))
       \<and> (\<forall>c. getClientRecord (clients s) (clientId req) (clientSecret req) = Inr (Val c) \<longrightarrow>
            fst (api_analyze w s req) = reply 400 (Error msg_missing_documentText))
       \<and> (truthy (clientId req) \<and> truthy (clientSecret req) \<and>
          getClientRecord (clients s) (clientId req) (clientSecret req) = Inr Undefined \<longrightarrow>
            fst (api_analyze w s req) = reply 401 (Error msg_invalid_credentials))
       \<and> (JNull \<notin> set (clients s) \<longrightarrow>
            status (fst (api_analyze w s req)) = 400 \<or> status (fst (api_analyze w s req)) = 401)"
proof -
  have found: "fst (api_analyze w s req) = reply 400 (Error msg_missing_documentText)"
    if "getClientRecord (clients s) (clientId req) (clientSecret req) = Inr (Val c)" for c
    using that getClientRecord_found [OF that] assms
    by (auto simp: api_analyze_def api_analyze_try_def catch_def)
  have quiet: "fst (snd (api_analyze w s req)) = [] \<and> snd (snd (api_analyze w s req)) = s"
    using assms
    by (auto simp: api_analyze_def api_analyze_try_def catch_def split: sum.splits)
  have missing: "fst (api_analyze w s req) = reply 400 (Error msg_missing_credentials)"
    if "\<not> truthy (clientId req) \<or> \<not> truthy (clientSecret req)"
    using that by (auto simp: api_analyze_def api_analyze_try_def catch_def)
  have unknown: "fst (api_analyze w s req) = reply 401 (Error msg_invalid_credentials)"
    if "truthy (clientId req) \<and> truthy (clientSecret req) \<and>
          getClientRecord (clients s) (clientId req) (clientSecret req) = Inr Undefined"
    using that by (simp add: not_found_analyze)
  have either: "status (fst (api_analyze w s req)) = 400 \<or> status (fst (api_analyze w s req)) = 401"
    if "JNull \<notin> set (clients s)"
    using getClientRecord_cases [OF that, of "clientId req" "clientSecret req"] found missing unknown
    by (cases "truthy (clientId req) \<and> truthy (clientSecret req)") (auto simp: reply_def)
  from found quiet missing unknown either show ?thesis by blast
qed

theorem analyze_empty_document_witness:
  "documentText (as_acme\<lparr>documentText := Val (JStr [])\<rparr>) = Val (JStr [])
   \<and> api_analyze sample_world sample_state (as_acme\<lparr>documentText := Val (JStr [])\<rparr>)
       = (reply 400 (Error msg_missing_documentText), [], sample_state)"
proof -
  let ?req = "as_acme\<lparr>documentText := Val (JStr [])\<rparr>"
  have d: "documentText ?req = Val (JStr [])" by simp
  have a: "getClientRecord (clients sample_state) (clientId ?req) (clientSecret ?req)
             = Inr (Val tenant_acme)"
    by (simp add: sample_clients getClientRecord_def as_acme_def no_fields_def tenant_acme_def
        own_def str_def)
  show ?thesis
    using d a analyze_empty_document [OF d, of sample_world sample_state]
    by (simp add: prod_eq_iff)
qed

section \<open>Generation: prompt and answer\<close>

lemma trim_between:
  assumes "\<forall>c\<in>set pre. is_space c" and "\<forall>c\<in>set post. is_space c"
    and "\<not> is_space x" and "\<not> is_space y"
  shows "trim (pre @ x # mid @ y # post) = x # mid @ [y]"
proof -
  have "dropWhile is_space (pre @ x # mid @ y # post) = x # mid @ y # post"
    using assms(1,3) by (subst dropWhile_append2) auto
  moreover have "dropWhile is_space (rev post @ y # rev mid @ [x]) = y # rev mid @ [x]"
    using assms(2,4) by (subst dropWhile_append2) auto
  ultimately show ?thesis
    by (simp add: trim_def)
qed


lemma prompt_head_split: "prompt_head = 0xA # 0x56 # tl (tl prompt_head)"
  by (simp add: prompt_head_def str_def)

lemma prompt_tail_split: "prompt_tail = butlast (butlast prompt_tail) @ [0x2E, 0xA]"
  by (simp add: prompt_tail_def str_def)

lemma trim_template:
  "trim (prompt_head @ a @ prompt_middle @ b @ prompt_tail) =
     tl prompt_head @ a @ prompt_middle @ b @ butlast prompt_tail"
proof -
  let ?h = "tl (tl prompt_head)" and ?t = "butlast (butlast prompt_tail)"
  have "trim ([0xA] @ 0x56 # (?h @ a @ prompt_middle @ b @ ?t) @ 0x2E # [0xA])
          = 0x56 # (?h @ a @ prompt_middle @ b @ ?t) @ [0x2E]"
    by (rule trim_between) (simp_all add: is_space_def)
  moreover have "prompt_head @ a @ prompt_middle @ b @ prompt_tail
          = [0xA] @ 0x56 # (?h @ a @ prompt_middle @ b @ ?t) @ 0x2E # [0xA]"
    by (subst prompt_head_split, subst prompt_tail_split) simp
  moreover have "tl prompt_head = 0x56 # ?h"
    by (subst prompt_head_split) simp
  moreover have "butlast prompt_tail = ?t @ [0x2E]"
    by (subst prompt_tail_split) (simp add: butlast_append)
  ultimately show ?thesis by simp
qed

lemma fullPrompt_strings:
  "fullPrompt (Val (JStr task)) sel =
     (case to_string_val (js_or sel (Val (JStr placeholder))) of
        Inl e \<Rightarrow> Inl e
      | Inr b \<Rightarrow> Inr (tl prompt_head @ task @ prompt_middle @ b @ butlast prompt_tail))"
  by (simp add: fullPrompt_def trim_template split: sum.splits)

lemma ia_success:
  assumes "getClientRecord (clients s) (clientId req) (clientSecret req) = Inr (Val c)"
    and "truthy (preferred_key w c)" and "truthy (prompt req)"
    and "fullPrompt (prompt req) (selectedText req) = Inr user"
    and "to_string_val (clientId req) = Inr k"
    and "complete w \<lparr>call_key = preferred_key w c, call_model = model_name,
             call_system = customSystemPrompt (assistants (loadAssistants s)) k,
             call_user = user, call_temperature_tenths = 3\<rparr> = Inr completion"
  shows "api_ia w s req =
           (reply 200 (Generated (answer completion) (js_or (mode req) (Val (JStr replace_mode)))),
            [\<lparr>call_key = preferred_key w c, call_model = model_name,
              call_system = customSystemPrompt (assistants (loadAssistants s)) k,
              call_user = user, call_temperature_tenths = 3\<rparr>],
            loadAssistants s)"
proof -
  from getClientRecord_found [OF assms(1)] obtain m where c: "c = JObj m"
    and t: "truthy (clientId req)" "truthy (clientSecret req)" by blast
  show ?thesis
    using assms t
    by (simp add: api_ia_def api_ia_try_def catch_def c resolve_key_record Let_def)
qed

lemma ia_answer:
  "call \<in> set (fst (snd (api_ia w s req))) \<Longrightarrow> complete w call = Inr completion \<Longrightarrow>
   fst (api_ia w s req) =
     reply 200 (Generated (answer completion) (js_or (mode req) (Val (JStr replace_mode))))"
  by (auto simp: api_ia_def api_ia_try_def catch_def Let_def split: sum.splits if_splits)

lemma ia_call_user:
  "call \<in> set (fst (snd (api_ia w s req))) \<Longrightarrow>
   fullPrompt (prompt req) (selectedText req) = Inr (call_user call)"
  by (auto simp: api_ia_def api_ia_try_def catch_def Let_def split: sum.splits if_splits)

lemma ia_mode:
  "fst (api_ia w s req) = reply 200 (Generated text m) \<Longrightarrow> m = js_or (mode req) (Val (JStr replace_mode))"
  by (auto simp: api_ia_def api_ia_try_def catch_def Let_def reply_def split: sum.splits if_splits)

lemma answer_content:
  "answer completion =
     (case first_choice_content completion of Some s \<Rightarrow> trim s | None \<Rightarrow> answer_fallback)"
proof (cases completion)
  case Undefined
  then show ?thesis by (simp add: answer_def first_choice_content_def)
next
  case (Val v)
  show ?thesis
  proof (cases v)
    case (JObj r)
    show ?thesis
      unfolding Val JObj
      by (auto simp: answer_def first_choice_content_def own_def
          split: option.splits json.splits list.splits jsval.splits sum.splits)
  qed (simp_all add: Val answer_def first_choice_content_def)
qed

lemma summarize_authenticated:
  "getClientRecord (clients sample_state) (clientId summarize) (clientSecret summarize)
     = Inr (Val tenant_acme)"
  by (simp add: sample_clients getClientRecord_def summarize_def as_acme_def no_fields_def
      tenant_acme_def own_def str_def)

lemma summarize_prompt:
  "fullPrompt (prompt summarize) (selectedText summarize) =
     Inr (tl prompt_head @ str ''Resuma isto'' @ prompt_middle @ str ''Lorem ipsum''
          @ butlast prompt_tail)"
  by (simp add: summarize_def fullPrompt_strings js_or_def str_def)

lemma summarize_call:
  "\<exists>call. fst (snd (api_ia sample_world sample_state summarize)) = [call]"
proof -
  have key: "truthy (preferred_key sample_world tenant_acme)"
    by (simp add: preferred_key_def stored_key_def tenant_acme_def own_def str_def)
  have task: "truthy (prompt summarize)"
    by (simp add: summarize_def str_def)
  from ia_with_key [OF summarize_authenticated key task summarize_prompt]
  show ?thesis by blast
qed

text \<open>
  The extraction that \<^verbatim>\<open>/api/configure\<close> and \<^verbatim>\<open>/api/analyze\<close> inline is looser: for
  a completion whose first choice has no message, where \<^verbatim>\<open>/api/ia\<close> falls back, the member
  chain throws and the handler answers 500.
\<close>

lemma unguarded_extraction_throws:
  "answer (Val (JObj [(str ''choices'', JArr [JObj []])])) = answer_fallback
   \<and> content_or w fallback (Val (JObj [(str ''choices'', JArr [JObj []])])) = Inl TypeError
   \<and> (\<forall>call\<in>set (fst (snd (api_analyze w s req))).
         complete w call = Inr (Val (JObj [(str ''choices'', JArr [JObj []])])) \<longrightarrow>
         fst (api_analyze w s req) = reply 500 (Caught TypeError (Some (str ''Internal Error''))))"
proof -
  have "content_or w fallback (Val (JObj [(str ''choices'', JArr [JObj []])])) = Inl TypeError"
    for fallback
    by (simp add: content_or_def own_def str_def)
  then show ?thesis
    by (auto simp: answer_def own_def str_def api_analyze_def api_analyze_try_def catch_def Let_def
        split: sum.splits if_splits)
qed

text \<open>
  C5. For every Generate request whose task is a non-empty string: when the selected text
  is a non-empty string, the composed prompt is the fixed template with the task and the
  selected text embedded verbatim; when the selected text is absent or empty, the
  placeholder sentence stands in its place. The user message of every completion call
  that the handler makes is this composed prompt, and when the request has no mode, every
  success response has the mode \<^verbatim>\<open>replace\<close>.
\<close>

theorem generate_embeds_task_and_text:
  assumes "prompt req = Val (JStr task)" and "task \<noteq> []"
  shows "(\<forall>ref. selectedText req = Val (JStr ref) \<and> ref \<noteq> [] \<longrightarrow>
            fullPrompt (prompt req) (selectedText req) =
              Inr (tl prompt_head @ task @ prompt_middle @ ref @ butlast prompt_tail))
       \<and> (selectedText req = Undefined \<or> selectedText req = Val (JStr []) \<longrightarrow>
            fullPrompt (prompt req) (selectedText req) =
              Inr (tl prompt_head @ task @ prompt_middle @ placeholder @ butlast prompt_tail))
       \<and> (\<forall>call\<in>set (fst (snd (api_ia w s req))).
            fullPrompt (prompt req) (selectedText req) = Inr (call_user call))
       \<and> (mode req = Undefined \<longrightarrow>
            (\<forall>text m. fst (api_ia w s req) = reply 200 (Generated text m) \<longrightarrow>
               m = Val (JStr replace_mode)))"
proof -
  have given: "\<forall>ref. selectedText req = Val (JStr ref) \<and> ref \<noteq> [] \<longrightarrow>
            fullPrompt (prompt req) (selectedText req) =
              Inr (tl prompt_head @ task @ prompt_middle @ ref @ butlast prompt_tail)"
    by (simp add: assms(1) fullPrompt_strings js_or_def)
  have absent: "selectedText req = Undefined \<or> selectedText req = Val (JStr []) \<longrightarrow>
            fullPrompt (prompt req) (selectedText req) =
              Inr (tl prompt_head @ task @ prompt_middle @ placeholder @ butlast prompt_tail)"
    by (auto simp: assms(1) fullPrompt_strings js_or_def)
  have user: "\<forall>call\<in>set (fst (snd (api_ia w s req))).
            fullPrompt (prompt req) (selectedText req) = Inr (call_user call)"
    using ia_call_user by blast
  have mode: "mode req = Undefined \<longrightarrow>
            (\<forall>text m. fst (api_ia w s req) = reply 200 (Generated text m) \<longrightarrow>
               m = Val (JStr replace_mode))"
    using ia_mode [of w s req] by (auto simp: js_or_def)
  from given absent user mode show ?thesis
    by (intro conjI) assumption+
qed

theorem generate_embeds_task_and_text_witness:
  "prompt summarize = Val (JStr (str ''Resuma isto'')) \<and> str ''Resuma isto'' \<noteq> []
   \<and> (\<exists>call text. api_ia sample_world sample_state summarize
          = (reply 200 (Generated text (Val (JStr replace_mode))), [call], sample_state)
        \<and> call_user call = tl prompt_head @ str ''Resuma isto'' @ prompt_middle
            @ str ''Lorem ipsum'' @ butlast prompt_tail)"
proof -
  have p: "prompt summarize = Val (JStr (str ''Resuma isto''))"
    by (simp add: summarize_def)
  have n: "str ''Resuma isto'' \<noteq> []"
    by (simp add: str_def)
  note T = generate_embeds_task_and_text [OF p n, of sample_world sample_state]
  have sel: "selectedText summarize = Val (JStr (str ''Lorem ipsum'')) \<and> str ''Lorem ipsum'' \<noteq> []"
    by (simp add: summarize_def str_def)
  note composed = T [THEN conjunct1, THEN spec, THEN mp, OF sel]
  from summarize_call obtain call
    where call: "fst (snd (api_ia sample_world sample_state summarize)) = [call]" by blast
  then have "call \<in> set (fst (snd (api_ia sample_world sample_state summarize)))" by simp
  from T [THEN conjunct2, THEN conjunct2, THEN conjunct1, THEN bspec, OF this] composed
  have user: "call_user call = tl prompt_head @ str ''Resuma isto'' @ prompt_middle
            @ str ''Lorem ipsum'' @ butlast prompt_tail"
    by simp
  have "call \<in> set (fst (snd (api_ia sample_world sample_state summarize)))
      \<and> complete sample_world call = Inr (completion_with (JStr (str '' Feito. '')))"
    using call by (simp add: sample_world_def)
  then have r: "fst (api_ia sample_world sample_state summarize) =
      reply 200 (Generated (answer (completion_with (JStr (str '' Feito. ''))))
        (js_or (mode summarize) (Val (JStr replace_mode))))"
    using ia_answer by blast
  have m: "mode summarize = Undefined"
    by (simp add: summarize_def as_acme_def no_fields_def)
  from T [THEN conjunct2, THEN conjunct2, THEN conjunct2, THEN mp, OF m, THEN spec, THEN spec, THEN mp, OF r]
  have md: "js_or (mode summarize) (Val (JStr replace_mode)) = Val (JStr replace_mode)" .
  have st: "snd (snd (api_ia sample_world sample_state summarize)) = sample_state"
    by (simp add: api_ia_def api_ia_try_def catch_def Let_def loadAssistants_def sample_state_def
        startup_def split: sum.splits)
  from r md call st have "api_ia sample_world sample_state summarize
      = (reply 200 (Generated (answer (completion_with (JStr (str '' Feito. ''))))
           (Val (JStr replace_mode))), [call], sample_state)"
    by (simp add: prod_eq_iff)
  with user have "\<exists>call text. api_ia sample_world sample_state summarize
          = (reply 200 (Generated text (Val (JStr replace_mode))), [call], sample_state)
        \<and> call_user call = tl prompt_head @ str ''Resuma isto'' @ prompt_middle
            @ str ''Lorem ipsum'' @ butlast prompt_tail"
    by blast
  with p n show ?thesis by (intro conjI) assumption+
qed

section \<open>Saving an API key\<close>

lemma field_names_differ:
  "field_name Field_openaiApiKey \<noteq> field_name Field_id"
  "field_name Field_openaiApiKey \<noteq> field_name Field_secret"
  by (simp_all add: str_def)

lemma set_openaiApiKey_object:
  "set_openaiApiKey c key = Inr d \<longleftrightarrow>
     (\<exists>m. c = JObj m \<and> d = JObj (AList.update (field_name Field_openaiApiKey) key m))"
  by (cases c) auto

lemma set_openaiApiKey_keeps:
  assumes "set_openaiApiKey c key = Inr d"
  shows "get_field (Val d) Field_id = get_field (Val c) Field_id"
    and "get_field (Val d) Field_secret = get_field (Val c) Field_secret"
    and "get_field (Val d) Field_openaiApiKey = Inr (Val key)"
    and "set_openaiApiKey d key = Inr d"
  using assms field_names_differ
  by (auto simp: set_openaiApiKey_object own_def update_conv' simp del: field_name.simps)

lemma next_index_Some:
  "next_index r = Inr (Some i) \<longleftrightarrow> (\<exists>n. i = Suc n \<and> r = Inr (Some n))"
  by (auto simp: next_index_def split: sum.splits option.splits)

lemma strict_eq_eq: "strict_eq a b \<Longrightarrow> a = b"
  by (cases a; cases b) (auto elim: same_primitive.elims)

lemma findIndex_update:
  "findIndex xs cid sec = Inr (Some i) \<Longrightarrow> set_openaiApiKey (xs ! i) key = Inr d \<Longrightarrow>
   i < length xs \<and> findIndex (xs[i := d]) cid sec = Inr (Some i) \<and>
   (truthy sec \<longrightarrow> find_client (xs[i := d]) cid sec = Inr (Val d))"
proof (induction xs arbitrary: i)
  case Nil
  then show ?case by simp
next
  case (Cons c cs)
  from Cons.prems(1) obtain a where a: "get_field (Val c) Field_id = Inr a"
    by (auto split: sum.splits)
  show ?case
  proof (cases "strict_eq a cid")
    case False
    with Cons.prems(1) a obtain n where n: "i = Suc n" "findIndex cs cid sec = Inr (Some n)"
      by (auto simp: next_index_Some)
    with Cons.prems(2) have "set_openaiApiKey (cs ! n) key = Inr d" by simp
    from Cons.IH [OF n(2) this] False a n show ?thesis
      by (simp add: next_index_def)
  next
    case True
    with Cons.prems(1) a obtain b where b: "get_field (Val c) Field_secret = Inr b"
      by (auto split: sum.splits)
    show ?thesis
    proof (cases "strict_eq b sec")
      case hit: True
      with Cons.prems(1) a b True have i: "i = 0" by simp
      with Cons.prems(2) have d: "set_openaiApiKey c key = Inr d" by simp
      from hit have "truthy sec \<longrightarrow> truthy b"
        using strict_eq_eq by blast
      with set_openaiApiKey_keeps(1,2) [OF d] a b True hit i show ?thesis
        by simp
    next
      case miss: False
      with Cons.prems(1) a b True obtain n
        where n: "i = Suc n" "findIndex cs cid sec = Inr (Some n)"
        by (auto simp: next_index_Some)
      with Cons.prems(2) have "set_openaiApiKey (cs ! n) key = Inr d" by simp
      from Cons.IH [OF n(2) this] True miss a b n show ?thesis
        by (simp add: next_index_def)
    qed
  qed
qed

lemma findIndex_first:
  "i < length xs \<Longrightarrow> JNull \<notin> set xs \<Longrightarrow> truthy sec \<Longrightarrow>
   tenant_matches (xs ! i) cid sec \<Longrightarrow> (\<forall>j<i. \<not> tenant_matches (xs ! j) cid sec) \<Longrightarrow>
   findIndex xs cid sec = Inr (Some i)"
proof (induction xs arbitrary: i)
  case Nil
  then show ?case by simp
next
  case (Cons c cs)
  from Cons.prems(2) have c: "c \<noteq> JNull" and rest: "JNull \<notin> set cs" by auto
  obtain a where a: "get_field (Val c) Field_id = Inr a"
    using get_field_Val_total [OF c] by blast
  obtain b where b: "get_field (Val c) Field_secret = Inr b"
    using get_field_Val_total [OF c] by blast
  have same: "strict_eq b sec \<Longrightarrow> truthy b"
    using strict_eq_eq Cons.prems(3) by blast
  show ?case
  proof (cases i)
    case 0
    with Cons.prems(4) a b show ?thesis
      by (simp add: tenant_matches_def)
  next
    case (Suc n)
    with Cons.prems have n: "n < length cs" "tenant_matches (cs ! n) cid sec"
      "\<forall>j<n. \<not> tenant_matches (cs ! j) cid sec"
      by auto
    from Cons.prems(5) Suc have "\<not> tenant_matches c cid sec"
      by auto
    with a b same have "\<not> (strict_eq a cid \<and> strict_eq b sec)"
      by (auto simp: tenant_matches_def)
    with Cons.IH [OF n(1) rest Cons.prems(3) n(2,3)] a b Suc show ?thesis
      by (auto simp: next_index_def)
  qed
qed

lemma save_key_success:
  assumes "truthy (clientId req)" "truthy (clientSecret req)"
    and "apiKey req = Val key" "truthy_json key"
    and "getClientRecord (clients s) (clientId req) (clientSecret req) = Inr (Val r)"
    and "clients_file s = Holds (JArr xs)"
    and "findIndex xs (clientId req) (clientSecret req) = Inr (Some i)"
    and "set_openaiApiKey (xs ! i) key = Inr d"
  shows "api_save_key s req =
           (reply 200 (Saved key_saved_message),
            s\<lparr>clients := xs[i := d], clients_file := Holds (JArr (xs[i := d]))\<rparr>)"
proof -
  from getClientRecord_found [OF assms(5)] have "truthy (Val r)" by auto
  with assms show ?thesis
    by (simp add: api_save_key_def api_save_key_try_def read_allClients_def Let_def)
qed

lemma truthy_is_value: "truthy v \<Longrightarrow> \<exists>j. v = Val j"
  by (cases v) simp_all

lemma save_key_changes:
  assumes "snd (api_save_key s req) \<noteq> s"
  shows "\<exists>key r xs i d. truthy (clientId req) \<and> truthy (clientSecret req)
    \<and> apiKey req = Val key \<and> truthy_json key
    \<and> getClientRecord (clients s) (clientId req) (clientSecret req) = Inr (Val r)
    \<and> clients_file s = Holds (JArr xs) 
    \<and> findIndex xs (clientId req) (clientSecret req) = Inr (Some i)
    \<and> set_openaiApiKey (xs ! i) key = Inr d"
  using assms
  by (auto simp: api_save_key_def api_save_key_try_def read_allClients_def Let_def
      dest: truthy_is_value
      split: if_splits jsval.splits sum.splits json.splits option.splits disk_file.splits)

lemma save_key_idempotent:
  "api_save_key (snd (api_save_key s req)) req = api_save_key s req"
proof (cases "snd (api_save_key s req) = s")
  case True
  then show ?thesis by simp
next
  case False
  from save_key_changes [OF False] obtain key r xs i d
    where h: "truthy (clientId req)" "truthy (clientSecret req)"
      "apiKey req = Val key" "truthy_json key"
      "getClientRecord (clients s) (clientId req) (clientSecret req) = Inr (Val r)"
      "clients_file s = Holds (JArr xs)"
      "findIndex xs (clientId req) (clientSecret req) = Inr (Some i)"
      "set_openaiApiKey (xs ! i) key = Inr d"
    by blast
  let ?s = "s\<lparr>clients := xs[i := d], clients_file := Holds (JArr (xs[i := d]))\<rparr>"
  have first: "api_save_key s req = (reply 200 (Saved key_saved_message), ?s)"
    by (rule save_key_success [OF h])
  from findIndex_update [OF h(7,8)] h(2)
  have i: "i < length xs"
    and again: "findIndex (xs[i := d]) (clientId req) (clientSecret req) = Inr (Some i)"
    and found: "find_client (xs[i := d]) (clientId req) (clientSecret req) = Inr (Val d)"
    by simp_all
  have auth: "getClientRecord (clients ?s) (clientId req) (clientSecret req) = Inr (Val d)"
    using found h(1,2) by (simp add: getClientRecord_def)
  have held: "clients_file ?s = Holds (JArr (xs[i := d]))" by simp
  have upd: "set_openaiApiKey (xs[i := d] ! i) key = Inr d"
    using i set_openaiApiKey_keeps(4) [OF h(8)] by simp
  have "api_save_key ?s req =
      (reply 200 (Saved key_saved_message),
       ?s\<lparr>clients := xs[i := d, i := d], clients_file := Holds (JArr (xs[i := d, i := d]))\<rparr>)"
    by (rule save_key_success [OF h(1-4) auth held again upd])
  then have "api_save_key ?s req = (reply 200 (Saved key_saved_message), ?s)"
    by simp
  with first show ?thesis by simp
qed

text \<open>
  C7. For every authenticated save-key request with a non-empty apiKey, when the tenant
  file holds a list without a null entry whose first entry matching the presented id and
  secret is entry \<open>i\<close>: the handler answers 200, and the file and the list in memory both
  become that list with the apiKey set on entry \<open>i\<close>, so that the next lookup with the same
  pair returns that entry with the new key. Saving is idempotent: on the state that a save
  leaves, the same request gives the same response and leaves that state unchanged.
\<close>

theorem save_key_updates_file_and_memory:
  "(\<forall>r key xs i.
      getClientRecord (clients s) (clientId req) (clientSecret req) = Inr (Val r) \<and>
      apiKey req = Val key \<and> truthy_json key \<and>
      clients_file s = Holds (JArr xs) \<and> JNull \<notin> set xs \<and> i < length xs \<and>
      tenant_matches (xs ! i) (clientId req) (clientSecret req) \<and>
      (\<forall>j<i. \<not> tenant_matches (xs ! j) (clientId req) (clientSecret req)) \<longrightarrow>
      (\<exists>d. api_save_key s req =
             (reply 200 (Saved key_saved_message),
              s\<lparr>clients := xs[i := d], clients_file := Holds (JArr (xs[i := d]))\<rparr>)
           \<and> set_openaiApiKey (xs ! i) key = Inr d
           \<and> stored_key d = Val key
           \<and> getClientRecord (xs[i := d]) (clientId req) (clientSecret req) = Inr (Val d)))
   \<and> api_save_key (snd (api_save_key s req)) req = api_save_key s req"
proof -
  have "\<exists>d. api_save_key s req =
             (reply 200 (Saved key_saved_message),
              s\<lparr>clients := xs[i := d], clients_file := Holds (JArr (xs[i := d]))\<rparr>)
           \<and> set_openaiApiKey (xs ! i) key = Inr d
           \<and> stored_key d = Val key
           \<and> getClientRecord (xs[i := d]) (clientId req) (clientSecret req) = Inr (Val d)"
    if auth: "getClientRecord (clients s) (clientId req) (clientSecret req) = Inr (Val r)"
      and key: "apiKey req = Val key" "truthy_json key"
      and held: "clients_file s = Holds (JArr xs)" and wf: "JNull \<notin> set xs"
      and i: "i < length xs" "tenant_matches (xs ! i) (clientId req) (clientSecret req)"
        "\<forall>j<i. \<not> tenant_matches (xs ! j) (clientId req) (clientSecret req)"
    for r key xs i
  proof -
    from getClientRecord_found [OF auth]
    have t: "truthy (clientId req)" "truthy (clientSecret req)" by simp_all
    have idx: "findIndex xs (clientId req) (clientSecret req) = Inr (Some i)"
      by (rule findIndex_first [OF i(1) wf t(2) i(2,3)])
    from i(2) obtain m where m: "xs ! i = JObj m"
      by (cases "xs ! i") (auto simp: tenant_matches_def strict_eq_eq dest!: strict_eq_eq)
    define d where "d = JObj (AList.update (field_name Field_openaiApiKey) key m)"
    have upd: "set_openaiApiKey (xs ! i) key = Inr d"
      by (simp add: m d_def)
    have stored: "stored_key d = Val key"
      by (simp add: d_def stored_key_def own_def update_conv')
    from findIndex_update [OF idx upd] t
    have "getClientRecord (xs[i := d]) (clientId req) (clientSecret req) = Inr (Val d)"
      by (simp add: getClientRecord_def)
    with save_key_success [OF t key auth held idx upd] upd stored show ?thesis
      by blast
  qed
  with save_key_idempotent [of s req] show ?thesis
    by blast
qed

theorem save_key_updates_file_and_memory_witness:
  "getClientRecord (clients sample_state) (clientId save_beta_key) (clientSecret save_beta_key)
     = Inr (Val tenant_beta)
   \<and> clients_file sample_state = Holds (JArr [tenant_acme, tenant_beta])
   \<and> tenant_matches ([tenant_acme, tenant_beta] ! 1) (clientId save_beta_key) (clientSecret save_beta_key)
   \<and> (\<exists>d. api_save_key sample_state save_beta_key =
          (reply 200 (Saved key_saved_message),
           sample_state\<lparr>clients := [tenant_acme, d],
                         clients_file := Holds (JArr [tenant_acme, d])\<rparr>)
        \<and> stored_key d = Val (JStr (str ''sk-beta''))
        \<and> getClientRecord [tenant_acme, d] (clientId save_beta_key) (clientSecret save_beta_key)
            = Inr (Val d))
   \<and> api_save_key (snd (api_save_key sample_state save_beta_key)) save_beta_key
       = api_save_key sample_state save_beta_key"
proof -
  note T = save_key_updates_file_and_memory [of sample_state save_beta_key]
  have auth: "getClientRecord (clients sample_state) (clientId save_beta_key)
      (clientSecret save_beta_key) = Inr (Val tenant_beta)"
    by (simp add: sample_clients getClientRecord_def save_beta_key_def as_beta_def no_fields_def
        tenant_acme_def tenant_beta_def own_def str_def)
  have held: "clients_file sample_state = Holds (JArr [tenant_acme, tenant_beta])"
    by (simp add: sample_state_def startup_def loadAssistants_def)
  have key: "apiKey save_beta_key = Val (JStr (str ''sk-beta'')) \<and> truthy_json (JStr (str ''sk-beta''))"
    by (simp add: save_beta_key_def str_def)
  have wf: "JNull \<notin> set [tenant_acme, tenant_beta] \<and> (1::nat) < length [tenant_acme, tenant_beta]"
    by (simp add: tenant_acme_def tenant_beta_def)
  have hit: "tenant_matches ([tenant_acme, tenant_beta] ! 1) (clientId save_beta_key)
      (clientSecret save_beta_key)"
    by (simp add: tenant_matches_def save_beta_key_def as_beta_def no_fields_def
        tenant_beta_def own_def str_def)
  have first: "\<forall>j<1. \<not> tenant_matches ([tenant_acme, tenant_beta] ! j) (clientId save_beta_key)
      (clientSecret save_beta_key)"
    by (simp add: tenant_matches_def save_beta_key_def as_beta_def no_fields_def
        tenant_acme_def own_def str_def)
  from auth key held wf hit first
  have "getClientRecord (clients sample_state) (clientId save_beta_key)
          (clientSecret save_beta_key) = Inr (Val tenant_beta) \<and>
      apiKey save_beta_key = Val (JStr (str ''sk-beta'')) \<and> truthy_json (JStr (str ''sk-beta'')) \<and>
      clients_file sample_state = Holds (JArr [tenant_acme, tenant_beta]) \<and>
      JNull \<notin> set [tenant_acme, tenant_beta] \<and> 1 < length [tenant_acme, tenant_beta] \<and>
      tenant_matches ([tenant_acme, tenant_beta] ! 1) (clientId save_beta_key)
        (clientSecret save_beta_key) \<and>
      (\<forall>j<1. \<not> tenant_matches ([tenant_acme, tenant_beta] ! j) (clientId save_beta_key)
        (clientSecret save_beta_key))"
    by (intro conjI) (erule conjunct1 conjunct2 | assumption)+
  from T [THEN conjunct1, THEN spec, THEN spec, THEN spec, THEN spec, THEN mp, OF this]
  obtain d where d: "api_save_key sample_state save_beta_key =
             (reply 200 (Saved key_saved_message),
              sample_state\<lparr>clients := [tenant_acme, tenant_beta][1 := d],
                clients_file := Holds (JArr ([tenant_acme, tenant_beta][1 := d]))\<rparr>)"
      "stored_key d = Val (JStr (str ''sk-beta''))"
      "getClientRecord ([tenant_acme, tenant_beta][1 := d]) (clientId save_beta_key)
         (clientSecret save_beta_key) = Inr (Val d)"
    by blast
  then have "\<exists>d. api_save_key sample_state save_beta_key =
          (reply 200 (Saved key_saved_message),
           sample_state\<lparr>clients := [tenant_acme, d],
                         clients_file := Holds (JArr [tenant_acme, d])\<rparr>)
        \<and> stored_key d = Val (JStr (str ''sk-beta''))
        \<and> getClientRecord [tenant_acme, d] (clientId save_beta_key) (clientSecret save_beta_key)
            = Inr (Val d)"
    by auto
  with auth held hit T [THEN conjunct2] show ?thesis
    by (intro conjI) assumption+
qed

section \<open>Empty overrides\<close>




lemma content_or_string:
  "ws \<noteq> [] \<Longrightarrow> content_or w fallback (completion_with (JStr ws)) = Inr (trim ws)"
  by (simp add: content_or_def completion_with_def own_def str_def)

lemma configure_success:
  assumes "getClientRecord (clients s) (clientId req) (clientSecret req) = Inr (Val c)"
    and "truthy (preferred_key w c)" and "truthy (rawPrompt req)"
    and "to_string_val (rawPrompt req) = Inr raw"
    and "complete w \<lparr>call_key = preferred_key w c, call_model = model_name,
             call_system = Own (JStr optimizer_persona),
             call_user = optimize_lead @ raw @ [0x22],
             call_temperature_tenths = 7\<rparr> = Inr completion"
    and "content_or w optimized_fallback completion = Inr p"
    and "to_string_val (clientId req) = Inr k"
  shows "api_configure w s req =
           (reply 200 (Configured p),
            [\<lparr>call_key = preferred_key w c, call_model = model_name,
              call_system = Own (JStr optimizer_persona),
              call_user = optimize_lead @ raw @ [0x22],
              call_temperature_tenths = 7\<rparr>],
            (loadAssistants s)
              \<lparr>assistants := obj_set_string (assistants (loadAssistants s)) k p,
               assistants_file := Holds (obj_set_string (assistants (loadAssistants s)) k p)\<rparr>)"
proof -
  from getClientRecord_found [OF assms(1)] obtain m where c: "c = JObj m"
    and t: "truthy (clientId req)" "truthy (clientSecret req)" by blast
  show ?thesis
    using assms t
    by (simp add: api_configure_def api_configure_try_def catch_def c resolve_key_record Let_def
        saveAssistant_def)
qed





text \<open>
  Without an override, a tenant whose id names a member of \<^verbatim>\<open>Object.prototype\<close> gets that
  member, not the default persona.
\<close>

lemma inherited_member_is_not_default:
  "customSystemPrompt [] (str ''constructor'') = Proto (str ''constructor'')"
  by (simp add: customSystemPrompt_def obj_get_def object_prototype_keys_def str_def)

section \<open>Overrides across a restart\<close>

lemma restart_assistants:
  "assistants_file s = Holds a \<Longrightarrow> assistants (restart s) = a"
  by (simp add: restart_def startup_def loadAssistants_def)

lemma override_survives_restart:
  assumes "to_string_val cid = Inr k"
    and "k \<noteq> str ''__proto__'' \<or> map_of (assistants (loadAssistants s)) k \<noteq> None"
  shows "fst (saveAssistant s cid t) = Inr ()
       \<and> obj_get (assistants (restart (snd (saveAssistant s cid t)))) k = Own (JStr t)"
  using assms
  by (auto simp: saveAssistant_def Let_def obj_set_string_def restart_assistants obj_get_def
      update_conv')

lemma configure_proto_run:
  "\<exists>call. api_configure persona_world proto_state configure_proto =
     (reply 200 (Configured (str ''Persona'')), [call],
      proto_state\<lparr>assistants := [], assistants_file := Holds []\<rparr>)"
proof -
  have auth: "getClientRecord (clients proto_state) (clientId configure_proto)
      (clientSecret configure_proto) = Inr (Val tenant_proto)"
    by (simp add: proto_state_def startup_def loadAssistants_def load_clients_def
        getClientRecord_def configure_proto_def no_fields_def tenant_proto_def own_def str_def)
  have key: "truthy (preferred_key persona_world tenant_proto)"
    by (simp add: preferred_key_def stored_key_def tenant_proto_def own_def str_def)
  have raw: "truthy (rawPrompt configure_proto)"
    and conv: "to_string_val (rawPrompt configure_proto) = Inr (str ''Advogado Civilista'')"
    by (simp_all add: configure_proto_def str_def)
  have answered: "complete persona_world
      \<lparr>call_key = preferred_key persona_world tenant_proto, call_model = model_name,
       call_system = Own (JStr optimizer_persona),
       call_user = optimize_lead @ str ''Advogado Civilista'' @ [0x22],
       call_temperature_tenths = 7\<rparr> = Inr (completion_with (JStr (str ''Persona'')))"
    by (simp add: persona_world_def)
  have content: "content_or persona_world optimized_fallback (completion_with (JStr (str ''Persona'')))
      = Inr (str ''Persona'')"
    using content_or_string [of "str ''Persona''" persona_world optimized_fallback]
    by (simp add: trim_def is_space_def str_def)
  have k: "to_string_val (clientId configure_proto) = Inr (str ''__proto__'')"
    by (simp add: configure_proto_def no_fields_def)
  have s: "loadAssistants proto_state = proto_state" "assistants proto_state = []"
    by (simp_all add: proto_state_def startup_def loadAssistants_def)
  from configure_success [OF auth key raw conv answered content k] s show ?thesis
    by (simp add: obj_set_string_def)
qed

text \<open>
  C8 fails for the tenant id \<^verbatim>\<open>__proto__\<close>. Saving an override under that id returns
  normally, but the assignment reaches the setter of \<^verbatim>\<open>Object.prototype\<close>, which ignores
  a string, so the file is written without the entry; after a restart the entry read back
  under that id is the inherited prototype member, not the saved text. The same happens
  through \<^verbatim>\<open>/api/configure\<close> for a tenant with that id: the handler answers 200 with the
  optimized prompt, and nothing is stored. For every other id the override survives the
  restart.
\<close>

theorem override_for_proto_id_is_dropped:
  "fst (saveAssistant sample_state (Val (JStr (str ''__proto__''))) (str ''Persona'')) = Inr ()
   \<and> assistants_file (snd (saveAssistant sample_state (Val (JStr (str ''__proto__''))) (str ''Persona'')))
       = Holds []
   \<and> obj_get
        (assistants (restart (snd (saveAssistant sample_state (Val (JStr (str ''__proto__'')))
           (str ''Persona'')))))
        (str ''__proto__'')
       = Proto (str ''__proto__'')
   \<and> fst (api_configure persona_world proto_state configure_proto)
       = reply 200 (Configured (str ''Persona''))
   \<and> assistants_file (snd (snd (api_configure persona_world proto_state configure_proto)))
       = Holds []
   \<and> obj_get
        (assistants (restart (snd (snd (api_configure persona_world proto_state configure_proto)))))
        (str ''__proto__'')
       = Proto (str ''__proto__'')"
proof -
  have direct: "fst (saveAssistant sample_state (Val (JStr (str ''__proto__''))) (str ''Persona'')) = Inr ()
   \<and> assistants_file (snd (saveAssistant sample_state (Val (JStr (str ''__proto__''))) (str ''Persona'')))
       = Holds []
   \<and> obj_get
        (assistants (restart (snd (saveAssistant sample_state (Val (JStr (str ''__proto__'')))
           (str ''Persona'')))))
        (str ''__proto__'')
       = Proto (str ''__proto__'')"
    by (simp add: saveAssistant_def Let_def obj_set_string_def restart_def startup_def
      loadAssistants_def sample_state_def obj_get_def object_prototype_keys_def str_def)
  from configure_proto_run obtain call
    where run: "api_configure persona_world proto_state configure_proto =
     (reply 200 (Configured (str ''Persona'')), [call],
      proto_state\<lparr>assistants := [], assistants_file := Holds []\<rparr>)"
    by blast
  have "obj_get (assistants (restart (proto_state\<lparr>assistants := [], assistants_file := Holds []\<rparr>)))
      (str ''__proto__'') = Proto (str ''__proto__'')"
    by (simp add: restart_assistants obj_get_def object_prototype_keys_def str_def)
  with run have handler: "fst (api_configure persona_world proto_state configure_proto)
       = reply 200 (Configured (str ''Persona''))
   \<and> assistants_file (snd (snd (api_configure persona_world proto_state configure_proto)))
       = Holds []
   \<and> obj_get
        (assistants (restart (snd (snd (api_configure persona_world proto_state configure_proto)))))
        (str ''__proto__'')
       = Proto (str ''__proto__'')"
    by simp
  from direct handler show ?thesis
    by (elim conjE, intro conjI) assumption+
qed

section \<open>The text extracted from a completion\<close>

lemma authenticated_record:
  assumes "getClientRecord cs cid sec = Inr r" and "truthy r"
  shows "\<exists>c. r = Val c \<and> getClientRecord cs cid sec = Inr (Val c)"
  using assms truthy_is_value [of r] by auto

lemma analyze_call_made:
  assumes "call \<in> set (fst (snd (api_analyze w s req)))"
  shows "\<exists>c doc. getClientRecord (clients s) (clientId req) (clientSecret req) = Inr (Val c)
      \<and> truthy (preferred_key w c) \<and> truthy (documentText req)
      \<and> to_string_val (documentText req) = Inr doc"
proof -
  from assms obtain r key doc
    where r: "getClientRecord (clients s) (clientId req) (clientSecret req) = Inr r" "truthy r"
      and key: "resolve_key w r = Inr key" "truthy key"
      and doc: "truthy (documentText req)" "to_string_val (documentText req) = Inr doc"
    by (auto simp: api_analyze_def api_analyze_try_def catch_def Let_def
        split: sum.splits if_splits)
  from authenticated_record [OF r] obtain c where c: "r = Val c"
    "getClientRecord (clients s) (clientId req) (clientSecret req) = Inr (Val c)" by blast
  from getClientRecord_found [OF c(2)] obtain m where m: "c = JObj m" by blast
  from key c(1) m have "truthy (preferred_key w c)"
    by (simp add: resolve_key_record)
  with c(2) doc show ?thesis by blast
qed

lemma configure_call_made:
  assumes "call \<in> set (fst (snd (api_configure w s req)))"
  shows "\<exists>c raw. getClientRecord (clients s) (clientId req) (clientSecret req) = Inr (Val c)
      \<and> truthy (preferred_key w c) \<and> truthy (rawPrompt req)
      \<and> to_string_val (rawPrompt req) = Inr raw"
proof -
  from assms obtain r key raw
    where r: "getClientRecord (clients s) (clientId req) (clientSecret req) = Inr r" "truthy r"
      and key: "resolve_key w r = Inr key" "truthy key"
      and raw: "truthy (rawPrompt req)" "to_string_val (rawPrompt req) = Inr raw"
    by (auto simp: api_configure_def api_configure_try_def catch_def Let_def
        split: sum.splits if_splits prod.splits)
  from authenticated_record [OF r] obtain c where c: "r = Val c"
    "getClientRecord (clients s) (clientId req) (clientSecret req) = Inr (Val c)" by blast
  from getClientRecord_found [OF c(2)] obtain m where m: "c = JObj m" by blast
  from key c(1) m have "truthy (preferred_key w c)"
    by (simp add: resolve_key_record)
  with c(2) raw show ?thesis by blast
qed

lemma analyze_success:
  assumes "getClientRecord (clients s) (clientId req) (clientSecret req) = Inr (Val c)"
    and "truthy (preferred_key w c)" and "truthy (documentText req)"
    and "to_string_val (documentText req) = Inr doc"
    and "complete w \<lparr>call_key = preferred_key w c, call_model = model_name,
             call_system = Own (JStr EXPERT_PROMPT), call_user = analysis_lead @ doc,
             call_temperature_tenths = 4\<rparr> = Inr completion"
    and "content_or w analysis_fallback completion = Inr t"
  shows "api_analyze w s req =
           (reply 200 (Analysis t),
            [\<lparr>call_key = preferred_key w c, call_model = model_name,
              call_system = Own (JStr EXPERT_PROMPT), call_user = analysis_lead @ doc,
              call_temperature_tenths = 4\<rparr>], s)"
proof -
  from getClientRecord_found [OF assms(1)] obtain m where c: "c = JObj m"
    and t: "truthy (clientId req)" "truthy (clientSecret req)" by blast
  show ?thesis
    using assms t
    by (simp add: api_analyze_def api_analyze_try_def catch_def c resolve_key_record Let_def)
qed

lemma analyze_text:
  assumes "call \<in> set (fst (snd (api_analyze w s req)))"
    and "complete w call = Inr completion"
    and "content_or w analysis_fallback completion = Inr t"
  shows "fst (api_analyze w s req) = reply 200 (Analysis t)"
proof -
  from analyze_call_made [OF assms(1)] obtain c doc
    where h: "getClientRecord (clients s) (clientId req) (clientSecret req) = Inr (Val c)"
      "truthy (preferred_key w c)" "truthy (documentText req)"
      "to_string_val (documentText req) = Inr doc"
    by blast
  let ?call = "\<lparr>call_key = preferred_key w c, call_model = model_name,
             call_system = Own (JStr EXPERT_PROMPT), call_user = analysis_lead @ doc,
             call_temperature_tenths = 4\<rparr>"
  from analyze_with_key [OF h] assms(1) have "call = ?call" by simp
  with assms(2) have "complete w ?call = Inr completion" by simp
  from analyze_success [OF h this assms(3)] show ?thesis by simp
qed

lemma configure_text:
  assumes "call \<in> set (fst (snd (api_configure w s req)))"
    and "complete w call = Inr completion"
    and "content_or w optimized_fallback completion = Inr t"
  shows "fst (api_configure w s req) = reply 200 (Configured t)"
proof -
  from configure_call_made [OF assms(1)] obtain c raw
    where h: "getClientRecord (clients s) (clientId req) (clientSecret req) = Inr (Val c)"
      "truthy (preferred_key w c)" "truthy (rawPrompt req)"
      "to_string_val (rawPrompt req) = Inr raw"
    by blast
  let ?call = "\<lparr>call_key = preferred_key w c, call_model = model_name,
             call_system = Own (JStr optimizer_persona),
             call_user = optimize_lead @ raw @ [0x22],
             call_temperature_tenths = 7\<rparr>"
  from configure_with_key [OF h] assms(1) have "call = ?call" by simp
  with assms(2) have answered: "complete w ?call = Inr completion" by simp
  from authenticated_id_converts [OF h(1)] obtain k
    where k: "to_string_val (clientId req) = Inr k" by blast
  from configure_success [OF h answered assms(3) k] show ?thesis by simp
qed

lemma content_or_first_choice:
  assumes "first_choice_content completion = Some s"
  shows "content_or w fallback completion = Inr (if s = [] then fallback else trim s)"
proof -
  from assms obtain r choice rest message
    where "completion = Val (JObj r)"
      and "map_of r (str ''choices'') = Some (JArr (JObj choice # rest))"
      and "map_of choice (str ''message'') = Some (JObj message)"
      and "map_of message (str ''content'') = Some (JStr s)"
    by (auto simp: first_choice_content_def
        split: jsval.splits json.splits option.splits list.splits)
  then show ?thesis
    by (simp add: content_or_def own_def)
qed

lemma content_or_missing:
  "\<not> truthy completion \<Longrightarrow> content_or w fallback completion = Inr fallback"
  by (simp add: content_or_def)

lemma content_or_no_choices:
  assumes "get_field completion Field_choices = Inr ch" and "\<not> truthy ch \<or> ch = Val (JArr [])"
  shows "content_or w fallback completion = Inr fallback"
  using assms by (auto simp: content_or_def)

lemma content_or_no_content:
  assumes "get_field completion Field_choices = Inr (Val (JArr (choice # rest)))"
    and "get_field (Val choice) Field_message = Inr message"
    and "get_field message Field_content = Inr content" and "\<not> truthy content"
  shows "content_or w fallback completion = Inr fallback"
  using assms by (auto simp: content_or_def)

lemma contract_review_authenticated:
  "getClientRecord (clients sample_state) (clientId contract_review) (clientSecret contract_review)
     = Inr (Val tenant_acme)"
  by (simp add: sample_clients getClientRecord_def contract_review_def as_acme_def no_fields_def
      tenant_acme_def own_def str_def)

lemma contract_review_call:
  assumes "OPENAI_API_KEY w = Undefined"
  shows "\<exists>call. fst (snd (api_analyze w sample_state contract_review)) = [call]"
proof -
  have key: "truthy (preferred_key w tenant_acme)"
    by (simp add: preferred_key_def stored_key_def tenant_acme_def own_def str_def)
  have doc: "truthy (documentText contract_review)"
    "to_string_val (documentText contract_review) = Inr (str ''Contrato'')"
    by (simp_all add: contract_review_def str_def)
  from analyze_with_key [OF contract_review_authenticated key doc] show ?thesis
    by blast
qed

lemma summarize_call_in:
  "\<exists>call. fst (snd (api_ia w sample_state summarize)) = [call]"
proof -
  have key: "truthy (preferred_key w tenant_acme)"
    by (simp add: preferred_key_def stored_key_def tenant_acme_def own_def str_def)
  have task: "truthy (prompt summarize)"
    by (simp add: summarize_def str_def)
  from ia_with_key [OF summarize_authenticated key task summarize_prompt]
  show ?thesis by blast
qed

text \<open>
  C4, as stated for every completion response, fails. The two handlers that inline the
  unguarded extraction answer with an error where the claim promises the fallback text:
  here \<^verbatim>\<open>/api/analyze\<close> answers 500 to a completion whose first choice has no message.
  And the handlers treat an empty content differently: \<^verbatim>\<open>/api/ia\<close> returns the empty text,
  which is not its fallback, while \<^verbatim>\<open>/api/analyze\<close> returns its fallback, which is not the
  trimmed content.
\<close>

theorem extraction_differs_between_handlers:
  "first_choice_content (Val (JObj [(str ''choices'', JArr [JObj []])])) = None
   \<and> fst (api_analyze headless_world sample_state contract_review)
       = reply 500 (Caught TypeError (Some (str ''Internal Error'')))
   \<and> fst (api_ia silent_world sample_state summarize)
       = reply 200 (Generated [] (Val (JStr replace_mode)))
   \<and> [] \<noteq> answer_fallback
   \<and> fst (api_analyze silent_world sample_state contract_review)
       = reply 200 (Analysis analysis_fallback)
   \<and> analysis_fallback \<noteq> trim []"
proof -
  have none: "first_choice_content (Val (JObj [(str ''choices'', JArr [JObj []])])) = None"
    by (simp add: first_choice_content_def str_def)
  have "OPENAI_API_KEY headless_world = Undefined"
    by (simp add: headless_world_def sample_world_def)
  from contract_review_call [OF this] obtain call
    where "fst (snd (api_analyze headless_world sample_state contract_review)) = [call]"
    by blast
  then have made: "call \<in> set (fst (snd (api_analyze headless_world sample_state contract_review)))"
    by simp
  have "complete headless_world call = Inr (Val (JObj [(str ''choices'', JArr [JObj []])]))"
    by (simp add: headless_world_def)
  with unguarded_extraction_throws [of headless_world answer_fallback sample_state contract_review,
      THEN conjunct2, THEN conjunct2, THEN bspec, OF made]
  have error: "fst (api_analyze headless_world sample_state contract_review)
       = reply 500 (Caught TypeError (Some (str ''Internal Error'')))"
    by simp
  from summarize_call_in [of silent_world] obtain gen
    where "fst (snd (api_ia silent_world sample_state summarize)) = [gen]" by blast
  then have "gen \<in> set (fst (snd (api_ia silent_world sample_state summarize)))" by simp
  moreover have "complete silent_world gen = Inr (completion_with (JStr []))"
    by (simp add: silent_world_def)
  ultimately have "fst (api_ia silent_world sample_state summarize) =
      reply 200 (Generated (answer (completion_with (JStr [])))
        (js_or (mode summarize) (Val (JStr replace_mode))))"
    by (rule ia_answer)
  moreover have "answer (completion_with (JStr [])) = []"
    by (simp add: answer_def completion_with_def own_def str_def trim_def)
  moreover have "js_or (mode summarize) (Val (JStr replace_mode)) = Val (JStr replace_mode)"
    by (simp add: summarize_def as_acme_def no_fields_def js_or_def)
  ultimately have empty: "fst (api_ia silent_world sample_state summarize)
       = reply 200 (Generated [] (Val (JStr replace_mode)))"
    by simp
  have differs: "[] \<noteq> answer_fallback"
    by (simp add: answer_fallback_def str_def)
  have "OPENAI_API_KEY silent_world = Undefined"
    by (simp add: silent_world_def sample_world_def)
  from contract_review_call [OF this] obtain ana
    where "fst (snd (api_analyze silent_world sample_state contract_review)) = [ana]"
    by blast
  then have "ana \<in> set (fst (snd (api_analyze silent_world sample_state contract_review)))"
    by simp
  moreover have "complete silent_world ana = Inr (completion_with (JStr []))"
    by (simp add: silent_world_def)
  moreover have "content_or silent_world analysis_fallback (completion_with (JStr []))
      = Inr analysis_fallback"
    by (simp add: content_or_def completion_with_def own_def str_def)
  ultimately have fallback: "fst (api_analyze silent_world sample_state contract_review)
       = reply 200 (Analysis analysis_fallback)"
    by (rule analyze_text)
  have other: "analysis_fallback \<noteq> trim []"
    by (simp add: analysis_fallback_def trim_def str_def)
  from none error empty differs fallback other show ?thesis
    by (intro conjI) assumption+
qed

text \<open>
  C4 (amended). In \<^verbatim>\<open>/api/ia\<close> the text returned for a completion is the first choice's
  message content, trimmed, whenever the completion has a non-empty array of choices whose
  first message content is a string, the empty string included; in every other case it is
  the fixed fallback text and no error: so when the completion is missing, when it has no
  array of choices, and when the array is empty. In \<^verbatim>\<open>/api/configure\<close> and
  \<^verbatim>\<open>/api/analyze\<close>, each with a fallback text of its own, the text is that content,
  trimmed, when it is a non-empty string, and the fallback text when the content is the
  empty string, when the completion is missing, when it has no choices or an empty array
  of choices, and when the first choice has a message whose content is absent, null or
  otherwise empty. In each handler, whenever the service answers the call and the
  extraction yields a text, the response is a 200 carrying that text. What the last two
  handlers do with a first choice that has no message, or with a content of another type,
  is not part of the statement.
\<close>

theorem returned_text_is_content_or_fallback:
  "answer completion =
     (case first_choice_content completion of Some s \<Rightarrow> trim s | None \<Rightarrow> answer_fallback)
   \<and> (\<forall>call. call \<in> set (fst (snd (api_ia w s req))) \<and> complete w call = Inr completion \<longrightarrow>
        fst (api_ia w s req) =
          reply 200 (Generated (answer completion) (js_or (mode req) (Val (JStr replace_mode)))))
   \<and> (completion = Undefined \<or> completion = Val JNull \<longrightarrow> answer completion = answer_fallback)
   \<and> ((\<forall>xs. get_field completion Field_choices \<noteq> Inr (Val (JArr xs))) \<longrightarrow>
        answer completion = answer_fallback)
   \<and> (get_field completion Field_choices = Inr (Val (JArr [])) \<longrightarrow>
        answer completion = answer_fallback)
   \<and> (\<forall>t. first_choice_content completion = Some t \<longrightarrow>
        content_or w fallback completion = Inr (if t = [] then fallback else trim t))
   \<and> (\<not> truthy completion \<longrightarrow> content_or w fallback completion = Inr fallback)
   \<and> (\<forall>ch. get_field completion Field_choices = Inr ch \<and> (\<not> truthy ch \<or> ch = Val (JArr [])) \<longrightarrow>
        content_or w fallback completion = Inr fallback)
   \<and> (\<forall>choice rest message content.
        get_field completion Field_choices = Inr (Val (JArr (choice # rest))) \<and>
        get_field (Val choice) Field_message = Inr message \<and>
        get_field message Field_content = Inr content \<and> \<not> truthy content \<longrightarrow>
        content_or w fallback completion = Inr fallback)
   \<and> (\<forall>call t. call \<in> set (fst (snd (api_configure w s req))) \<and>
        complete w call = Inr completion \<and>
        content_or w optimized_fallback completion = Inr t \<longrightarrow>
        fst (api_configure w s req) = reply 200 (Configured t))
   \<and> (\<forall>call t. call \<in> set (fst (snd (api_analyze w s req))) \<and>
        complete w call = Inr completion \<and>
        content_or w analysis_fallback completion = Inr t \<longrightarrow>
        fst (api_analyze w s req) = reply 200 (Analysis t))"
proof -
  have missing: "completion = Undefined \<or> completion = Val JNull \<longrightarrow>
      answer completion = answer_fallback"
    by (auto simp: answer_def)
  have no_array: "(\<forall>xs. get_field completion Field_choices \<noteq> Inr (Val (JArr xs))) \<longrightarrow>
        answer completion = answer_fallback"
    by (auto simp: answer_def split: sum.splits jsval.splits json.splits list.splits)
  have empty: "get_field completion Field_choices = Inr (Val (JArr [])) \<longrightarrow>
        answer completion = answer_fallback"
    by (simp add: answer_def)
  have sent: "\<forall>call. call \<in> set (fst (snd (api_ia w s req))) \<and> complete w call = Inr completion \<longrightarrow>
        fst (api_ia w s req) =
          reply 200 (Generated (answer completion) (js_or (mode req) (Val (JStr replace_mode))))"
    using ia_answer by blast
  have loose: "\<forall>t. first_choice_content completion = Some t \<longrightarrow>
        content_or w fallback completion = Inr (if t = [] then fallback else trim t)"
    using content_or_first_choice by blast
  have loose_missing: "\<not> truthy completion \<longrightarrow> content_or w fallback completion = Inr fallback"
    using content_or_missing by blast
  have loose_choices: "\<forall>ch. get_field completion Field_choices = Inr ch \<and>
        (\<not> truthy ch \<or> ch = Val (JArr [])) \<longrightarrow>
        content_or w fallback completion = Inr fallback"
    using content_or_no_choices by blast
  have loose_content: "\<forall>choice rest message content.
        get_field completion Field_choices = Inr (Val (JArr (choice # rest))) \<and>
        get_field (Val choice) Field_message = Inr message \<and>
        get_field message Field_content = Inr content \<and> \<not> truthy content \<longrightarrow>
        content_or w fallback completion = Inr fallback"
    using content_or_no_content by blast
  have configured: "\<forall>call t. call \<in> set (fst (snd (api_configure w s req))) \<and>
        complete w call = Inr completion \<and>
        content_or w optimized_fallback completion = Inr t \<longrightarrow>
        fst (api_configure w s req) = reply 200 (Configured t)"
    using configure_text by blast
  have analyzed: "\<forall>call t. call \<in> set (fst (snd (api_analyze w s req))) \<and>
        complete w call = Inr completion \<and>
        content_or w analysis_fallback completion = Inr t \<longrightarrow>
        fst (api_analyze w s req) = reply 200 (Analysis t)"
    using analyze_text by blast
  from answer_content [of completion] sent missing no_array empty loose loose_missing
    loose_choices loose_content configured analyzed
  show ?thesis
    by (intro conjI) assumption+
qed

theorem returned_text_is_content_or_fallback_witness:
  "first_choice_content (completion_with (JStr (str '' Feito. ''))) = Some (str '' Feito. '')
   \<and> answer (completion_with (JStr (str '' Feito. ''))) = str ''Feito.''
   \<and> (\<exists>m. fst (api_ia sample_world sample_state summarize) = reply 200 (Generated (str ''Feito.'') m))
   \<and> fst (api_analyze sample_world sample_state contract_review) = reply 200 (Analysis (str ''Feito.''))"
proof -
  let ?c = "completion_with (JStr (str '' Feito. ''))"
  note T = returned_text_is_content_or_fallback
    [of ?c sample_world sample_state summarize analysis_fallback]
  note A = returned_text_is_content_or_fallback
    [of ?c sample_world sample_state contract_review analysis_fallback]
  have content: "first_choice_content ?c = Some (str '' Feito. '')"
    by (simp add: first_choice_content_def completion_with_def str_def)
  have tr: "trim (str '' Feito. '') = str ''Feito.''"
    by (simp add: trim_def is_space_def str_def)
  with T [THEN conjunct1] content have trimmed: "answer ?c = str ''Feito.''"
    by simp
  from summarize_call obtain call
    where call: "fst (snd (api_ia sample_world sample_state summarize)) = [call]" by blast
  then have "call \<in> set (fst (snd (api_ia sample_world sample_state summarize)))
      \<and> complete sample_world call = Inr ?c"
    by (simp add: sample_world_def)
  from T [THEN conjunct2, THEN conjunct1, THEN spec, THEN mp, OF this] trimmed
  have generated: "\<exists>m. fst (api_ia sample_world sample_state summarize)
      = reply 200 (Generated (str ''Feito.'') m)"
    by auto
  have filled: "str '' Feito. '' \<noteq> []"
    by (simp add: str_def)
  from A [THEN conjunct2, THEN conjunct2, THEN conjunct2, THEN conjunct2, THEN conjunct2,
      THEN conjunct1, THEN spec, THEN mp, OF content] filled tr
  have extracted: "content_or sample_world analysis_fallback ?c = Inr (str ''Feito.'')"
    by simp
  have "OPENAI_API_KEY sample_world = Undefined"
    by (simp add: sample_world_def)
  from contract_review_call [OF this] obtain ana
    where "fst (snd (api_analyze sample_world sample_state contract_review)) = [ana]"
    by blast
  then have "ana \<in> set (fst (snd (api_analyze sample_world sample_state contract_review)))"
    by simp
  moreover have "complete sample_world ana = Inr ?c"
    by (simp add: sample_world_def)
  ultimately have "ana \<in> set (fst (snd (api_analyze sample_world sample_state contract_review)))
      \<and> complete sample_world ana = Inr ?c
      \<and> content_or sample_world analysis_fallback ?c = Inr (str ''Feito.'')"
    using extracted by (intro conjI)
  note analysed = A [THEN conjunct2, THEN conjunct2, THEN conjunct2, THEN conjunct2,
      THEN conjunct2, THEN conjunct2, THEN conjunct2, THEN conjunct2, THEN conjunct2,
      THEN conjunct2, THEN spec, THEN spec, THEN mp, OF this]
  from content trimmed generated analysed show ?thesis
    by (intro conjI) assumption+
qed

end
